theory Spec2Isabelle
  imports Main "HOL-Library.AList" "HOL-Library.Sublist" "HOL-Library.Char_ord"
    "HOL-Library.List_Lexorder"
begin

section \<open>Values shared by the combine module and the EchoData classes\<close>

text \<open>
  Exceptions are values. \<open>IndexError\<close>, \<open>KeyError\<close>, \<open>ValueError\<close> and
  \<open>AttributeError\<close> are the ones the sources raise themselves (by indexing, by item
  lookup, by \<open>raise ValueError(...)\<close>, by calling a missing method), \<open>External\<close> is
  any exception that comes out of a library call (xarray, the file system), and
  \<open>ConflictingMetadata\<close> is the name the specification gives to a failed
  identical-required merge.
\<close>

datatype exn =
    IndexError
  | KeyError string
  | ValueError string
  | AttributeError string string
  | External string
  | ConflictingMetadata

definition exn_bind :: "exn + 'a \<Rightarrow> ('a \<Rightarrow> exn + 'b) \<Rightarrow> exn + 'b" where
  "exn_bind m f = (case m of Inl e \<Rightarrow> Inl e | Inr x \<Rightarrow> f x)"

text \<open>
  A dataset (\<open>xr.Dataset\<close>) carries group attributes, named data variables and the
  chunk size asked for each dimension. A data variable is held as the flat list of its
  elements' text, which is the view \<open>astype('<U10')\<close> acts on. Dictionaries are
  association lists read with \<open>map_of\<close> and written with \<open>AList.update\<close>.
\<close>

datatype attr = AStr string | APaths "string list"

record dataset =
  attrs :: "(string \<times> attr) list"
  data_vars :: "(string \<times> string list) list"
  chunks :: "(string \<times> nat) list"

definition Dataset :: dataset where
  "Dataset = \<lparr>attrs = [], data_vars = [], chunks = []\<rparr>"

definition assign_attrs :: "(string \<times> attr) list \<Rightarrow> dataset \<Rightarrow> dataset" where
  "assign_attrs d ds = ds\<lparr>attrs := fold (\<lambda>kv. AList.update (fst kv) (snd kv)) d (attrs ds)\<rparr>"

definition getitem :: "(string \<times> 'v) list \<Rightarrow> string \<Rightarrow> exn + 'v" where
  "getitem d k = (case map_of d k of None \<Rightarrow> Inl (KeyError k) | Some v \<Rightarrow> Inr v)"

definition setitem :: "dataset \<Rightarrow> string \<Rightarrow> string list \<Rightarrow> dataset" where
  "setitem ds k v = ds\<lparr>data_vars := AList.update k v (data_vars ds)\<rparr>"

text \<open>
  \<open>astype('<Un')\<close> turns a variable into fixed-width text of \<open>n\<close> characters: an
  element longer than \<open>n\<close> is cut to its first \<open>n\<close> characters, a shorter one reads
  back as it was. \<open>astype('str')\<close> on a dataset turns every variable into text; the
  elements are held as text already, so their values stay.
\<close>

definition astype_U :: "nat \<Rightarrow> string list \<Rightarrow> string list" where
  "astype_U n v = map (take n) v"

definition astype_str :: "dataset \<Rightarrow> dataset" where
  "astype_str ds = ds"

definition chunk :: "(string \<times> nat) list \<Rightarrow> dataset \<Rightarrow> dataset" where
  "chunk c ds = ds\<lparr>chunks := fold (\<lambda>kv. AList.update (fst kv) (snd kv)) c (chunks ds)\<rparr>"

text \<open>
  A path specification as Python passes it around: \<open>None\<close>, a string, a list of
  strings, or any other value.
\<close>

datatype path_spec = PNone | PStr string | PList "string list" | POther

text \<open>The keyword arguments of \<open>xr.open_mfdataset\<close>; \<open>None\<close> is an argument not passed.\<close>

datatype concat_dim = Dim string | Dims "string list"

record mf_kwargs =
  kw_group :: "string option"
  kw_concat_dim :: "concat_dim option"
  kw_data_vars :: "string option"
  kw_combine :: "string option"
  kw_compat :: "string option"
  kw_engine :: "string option"

definition no_kwargs :: mf_kwargs where
  "no_kwargs = \<lparr>kw_group = None, kw_concat_dim = None, kw_data_vars = None,
     kw_combine = None, kw_compat = None, kw_engine = None\<rparr>"

text \<open>One call of \<open>io.save_file(ds, path=, mode=, engine=, group=)\<close>.\<close>

record save_call =
  w_ds :: dataset
  w_path :: string
  w_mode :: string
  w_engine :: string
  w_group :: "string option"

text \<open>
  The trace of a combine call: the library calls that completed, in order. A call that
  raises leaves no event.
\<close>

datatype event =
    OpenDataset string "string option" string
  | OpenMfDataset "string list" mf_kwargs
  | Saved save_call

record datetime =
  year :: nat
  month :: nat
  day :: nat
  hour :: nat
  minute :: nat
  second :: nat
  microsecond :: nat

text \<open>
  What the sources call and do not define: xarray's two openers, \<open>io.save_file\<close>
  (which sees the output written so far), the directory listing, the UTC clock and the
  package version string.
\<close>

record env =
  open_dataset :: "string \<Rightarrow> string option \<Rightarrow> string \<Rightarrow> exn + dataset"
  open_mfdataset :: "path_spec \<Rightarrow> mf_kwargs \<Rightarrow> exn + dataset"
  save_file :: "event list \<Rightarrow> save_call \<Rightarrow> exn option"
  listdir :: "string \<Rightarrow> exn + string list"
  utcnow :: datetime
  ECHOPYPE_VERSION :: string

section \<open>convert/convert_combine.py\<close>

definition DEFAULT_CHUNK_SIZE :: "(string \<times> nat) list" where
  "DEFAULT_CHUNK_SIZE = [(''range_bin'', 25000), (''ping_time'', 2500)]"

subsection \<open>assemble_combined_provenance\<close>

text \<open>
  \<open>datetime.isoformat(timespec='seconds')\<close> of a naive datetime:
  \<open>YYYY-MM-DDTHH:MM:SS\<close>, every field in decimal and padded with zeros.
\<close>

fun dec :: "nat \<Rightarrow> string" where
  "dec n = (if n < 10 then [''0123456789'' ! n] else dec (n div 10) @ [''0123456789'' ! (n mod 10)])"

declare dec.simps [simp del]

definition zfill :: "nat \<Rightarrow> string \<Rightarrow> string" where
  "zfill w s = replicate (w - length s) CHR ''0'' @ s"

definition isoformat_seconds :: "datetime \<Rightarrow> string" where
  "isoformat_seconds d =
     zfill 4 (dec (year d)) @ ''-'' @ zfill 2 (dec (month d)) @ ''-'' @ zfill 2 (dec (day d))
     @ ''T'' @ zfill 2 (dec (hour d)) @ '':'' @ zfill 2 (dec (minute d)) @ '':''
     @ zfill 2 (dec (second d))"

definition assemble_combined_provenance :: "env \<Rightarrow> string list \<Rightarrow> dataset" where
  "assemble_combined_provenance E input_paths =
     (let prov_dict = [(''conversion_software_name'', AStr ''echopype''),
                       (''conversion_software_version'', AStr (ECHOPYPE_VERSION E)),
                       (''conversion_time'', AStr (isoformat_seconds (utcnow E) @ ''Z'')),
                       (''src_filenames'', APaths input_paths)];
          ds = Dataset
      in assign_attrs prov_dict ds)"

definition digit_chars :: "char set" where
  "digit_chars = set ''0123456789''"

text \<open>
  Reading a decimal text back: the value of a digit character is its place in
  \<open>0123456789\<close>, and the value of a text is that of its digits in base ten.
\<close>

definition digit_val :: "char \<Rightarrow> nat" where
  "digit_val c = length (takeWhile (\<lambda>x. x \<noteq> c) ''0123456789'')"

definition undec :: "string \<Rightarrow> nat" where
  "undec s = foldl (\<lambda>a c. 10 * a + digit_val c) 0 s"

subsection \<open>perform_combination\<close>

definition coerce_type :: "string \<Rightarrow> dataset \<Rightarrow> string \<Rightarrow> exn + dataset" where
  "coerce_type sonar_model ds grp =
     (if grp = ''Beam'' then
        (if sonar_model = ''EK80'' then
           exn_bind (getitem (data_vars ds) ''transceiver_software_version'') (\<lambda>v.
           let ds1 = setitem ds ''transceiver_software_version'' (astype_U 10 v) in
           exn_bind (getitem (data_vars ds1) ''channel_id'') (\<lambda>c.
           Inr (setitem ds1 ''channel_id'' (astype_U 50 c))))
         else if sonar_model = ''EK60'' then
           exn_bind (getitem (data_vars ds) ''gpt_software_version'') (\<lambda>v.
           let ds1 = setitem ds ''gpt_software_version'' (astype_U 10 v) in
           exn_bind (getitem (data_vars ds1) ''channel_id'') (\<lambda>c.
           Inr (setitem ds1 ''channel_id'' (astype_U 50 c))))
         else Inr ds)
      else Inr ds)"

text \<open>
  The function is a straight line of blocks, one per group. Each block is a step from
  the trace so far to the trace after it and the exception it raised, if any; an
  exception ends the call and leaves what was written. The two progress lines printed at
  the start and the end are left out.
\<close>

type_synonym step = "event list \<Rightarrow> event list \<times> exn option"

definition save_step ::
  "env \<Rightarrow> dataset \<Rightarrow> string \<Rightarrow> string \<Rightarrow> string \<Rightarrow> string option \<Rightarrow> step" where
  "save_step E ds path mode engine grp tr =
     (let w = \<lparr>w_ds = ds, w_path = path, w_mode = mode, w_engine = engine, w_group = grp\<rparr>
      in case save_file E tr w of Some e \<Rightarrow> (tr, Some e) | None \<Rightarrow> (tr @ [Saved w], None))"

definition open_step ::
  "env \<Rightarrow> string list \<Rightarrow> mf_kwargs \<Rightarrow> (dataset \<Rightarrow> step) \<Rightarrow> step" where
  "open_step E input_paths kw body tr =
     (case open_mfdataset E (PList input_paths) kw of
        Inl e \<Rightarrow> (tr, Some e)
      | Inr ds \<Rightarrow> body ds (tr @ [OpenMfDataset input_paths kw]))"

definition first_step ::
  "env \<Rightarrow> string list \<Rightarrow> string option \<Rightarrow> string \<Rightarrow> (dataset \<Rightarrow> step) \<Rightarrow> step" where
  "first_step E input_paths grp engine body tr =
     (case input_paths of
        [] \<Rightarrow> (tr, Some IndexError)
      | p # _ \<Rightarrow>
         (case open_dataset E p grp engine of
            Inl e \<Rightarrow> (tr, Some e)
          | Inr ds \<Rightarrow> body ds (tr @ [OpenDataset p grp engine])))"

definition chunk_sizes :: "(string \<times> string) list \<Rightarrow> exn + (string \<times> nat) list" where
  "chunk_sizes dims =
     fold (\<lambda>dk acc. exn_bind acc (\<lambda>c. exn_bind (getitem DEFAULT_CHUNK_SIZE (snd dk))
             (\<lambda>n. Inr (c @ [(fst dk, n)])))) dims (Inr [])"

definition chunked_save ::
  "env \<Rightarrow> (string \<times> string) list \<Rightarrow> (dataset \<Rightarrow> dataset) \<Rightarrow> dataset \<Rightarrow> string \<Rightarrow> string
     \<Rightarrow> string \<Rightarrow> step" where
  "chunked_save E dims post ds output_path engine grp tr =
     (case chunk_sizes dims of
        Inl e \<Rightarrow> (tr, Some e)
      | Inr c \<Rightarrow> save_step E (post (chunk c ds)) output_path ''a'' engine (Some grp) tr)"

definition combine_toplevel :: "env \<Rightarrow> string list \<Rightarrow> string \<Rightarrow> string \<Rightarrow> step" where
  "combine_toplevel E input_paths output_path engine =
     first_step E input_paths None engine (\<lambda>ds_top.
       save_step E ds_top output_path ''w'' engine None)"

definition combine_sonar :: "env \<Rightarrow> string list \<Rightarrow> string \<Rightarrow> string \<Rightarrow> step" where
  "combine_sonar E input_paths output_path engine =
     first_step E input_paths (Some ''Sonar'') engine (\<lambda>ds_sonar.
       save_step E ds_sonar output_path ''a'' engine (Some ''Sonar''))"

definition combine_provenance :: "env \<Rightarrow> string list \<Rightarrow> string \<Rightarrow> string \<Rightarrow> step" where
  "combine_provenance E input_paths output_path engine =
     (let ds_prov = assemble_combined_provenance E input_paths
      in save_step E ds_prov output_path ''a'' engine (Some ''Provenance''))"

definition combine_beam :: "env \<Rightarrow> string \<Rightarrow> string list \<Rightarrow> string \<Rightarrow> string \<Rightarrow> step" where
  "combine_beam E sonar_model input_paths output_path engine =
     open_step E input_paths
       (no_kwargs\<lparr>kw_group := Some ''Beam'', kw_concat_dim := Some (Dim ''ping_time''),
                  kw_data_vars := Some ''minimal'', kw_engine := Some engine\<rparr>)
       (\<lambda>ds_beam tr.
          case coerce_type sonar_model ds_beam ''Beam'' of
            Inl e \<Rightarrow> (tr, Some e)
          | Inr ds_beam' \<Rightarrow>
              chunked_save E [(''range_bin'', ''range_bin''), (''ping_time'', ''ping_time'')]
                (\<lambda>ds. ds) ds_beam' output_path engine ''Beam'' tr)"

definition combine_environment :: "env \<Rightarrow> string list \<Rightarrow> string \<Rightarrow> string \<Rightarrow> step" where
  "combine_environment E input_paths output_path engine =
     open_step E input_paths
       (no_kwargs\<lparr>kw_group := Some ''Environment'', kw_concat_dim := Some (Dim ''ping_time''),
                  kw_data_vars := Some ''minimal'', kw_engine := Some engine\<rparr>)
       (\<lambda>ds_env.
          chunked_save E [(''ping_time'', ''ping_time'')] (\<lambda>ds. ds) ds_env output_path engine
            ''Environment'')"

definition combine_platform :: "env \<Rightarrow> string \<Rightarrow> string list \<Rightarrow> string \<Rightarrow> string \<Rightarrow> step" where
  "combine_platform E sonar_model input_paths output_path engine =
     (if sonar_model = ''AZFP'' then
        open_step E input_paths
          (no_kwargs\<lparr>kw_group := Some ''Platform'', kw_combine := Some ''nested'',
                     kw_compat := Some ''identical'', kw_engine := Some engine\<rparr>)
          (\<lambda>ds_plat. save_step E ds_plat output_path ''a'' engine (Some ''Platform''))
      else if sonar_model \<in> set [''EK80'', ''EA640''] then
        open_step E input_paths
          (no_kwargs\<lparr>kw_group := Some ''Platform'',
                     kw_concat_dim := Some (Dims [''location_time'', ''mru_time'']),
                     kw_data_vars := Some ''minimal'', kw_engine := Some engine\<rparr>)
          (\<lambda>ds_plat.
             chunked_save E [(''location_time'', ''ping_time''), (''mru_time'', ''ping_time'')]
               (\<lambda>ds. ds) ds_plat output_path engine ''Platform'')
      else if sonar_model \<in> set [''EK60''] then
        open_step E input_paths
          (no_kwargs\<lparr>kw_group := Some ''Platform'',
                     kw_concat_dim := Some (Dims [''location_time'', ''ping_time'']),
                     kw_data_vars := Some ''minimal'', kw_engine := Some engine\<rparr>)
          (\<lambda>ds_plat.
             chunked_save E [(''location_time'', ''ping_time''), (''ping_time'', ''ping_time'')]
               (\<lambda>ds. ds) ds_plat output_path engine ''Platform'')
      else (\<lambda>tr. (tr, None)))"

definition combine_nmea :: "env \<Rightarrow> string \<Rightarrow> string list \<Rightarrow> string \<Rightarrow> string \<Rightarrow> step" where
  "combine_nmea E sonar_model input_paths output_path engine =
     (if sonar_model \<in> set [''EK60'', ''EK80'', ''EA640''] then
        open_step E input_paths
          (no_kwargs\<lparr>kw_group := Some ''Platform/NMEA'',
                     kw_concat_dim := Some (Dim ''location_time''),
                     kw_data_vars := Some ''minimal'', kw_engine := Some engine\<rparr>)
          (\<lambda>ds_nmea.
             chunked_save E [(''location_time'', ''ping_time'')] astype_str ds_nmea output_path
               engine ''Platform/NMEA'')
      else (\<lambda>tr. (tr, None)))"

definition combine_vendor :: "env \<Rightarrow> string list \<Rightarrow> string \<Rightarrow> string \<Rightarrow> step" where
  "combine_vendor E input_paths output_path engine =
     open_step E input_paths
       (no_kwargs\<lparr>kw_group := Some ''Vendor'', kw_combine := Some ''nested'',
                  kw_compat := Some ''no_conflicts'', kw_data_vars := Some ''minimal'',
                  kw_engine := Some engine\<rparr>)
       (\<lambda>ds_vend. save_step E ds_vend output_path ''a'' engine (Some ''Vendor''))"

definition then_step :: "step \<Rightarrow> step \<Rightarrow> step" where
  "then_step s t tr = (case s tr of (tr', None) \<Rightarrow> t tr' | (tr', Some e) \<Rightarrow> (tr', Some e))"

definition perform_combination ::
  "env \<Rightarrow> string \<Rightarrow> string list \<Rightarrow> string \<Rightarrow> string \<Rightarrow> event list \<times> exn option" where
  "perform_combination E sonar_model input_paths output_path engine =
     then_step (combine_toplevel E input_paths output_path engine)
    (then_step (combine_sonar E input_paths output_path engine)
    (then_step (combine_provenance E input_paths output_path engine)
    (then_step (combine_beam E sonar_model input_paths output_path engine)
    (then_step (combine_environment E input_paths output_path engine)
    (then_step (combine_platform E sonar_model input_paths output_path engine)
    (then_step (combine_nmea E sonar_model input_paths output_path engine)
               (combine_vendor E input_paths output_path engine))))))) []"

section \<open>process/echodata.py\<close>

subsection \<open>Library functions on paths\<close>

text \<open>
  \<open>os.path.splitext\<close> on a POSIX system: the extension starts at the last dot of the
  last path component, and dots that lead that component do not count. \<open>rfind\<close> is
  \<open>str.rfind\<close> for one character, \<open>-1\<close> when it does not occur.
\<close>

definition rfind :: "string \<Rightarrow> char \<Rightarrow> int" where
  "rfind p c =
     (if c \<in> set p then int (length p) - 1 - int (length (takeWhile (\<lambda>x. x \<noteq> c) (rev p)))
      else - 1)"

function splitext_loop :: "string \<Rightarrow> nat \<Rightarrow> nat \<Rightarrow> string \<times> string" where
  "splitext_loop p filenameIndex dotIndex =
     (if filenameIndex < dotIndex then
        (if p ! filenameIndex \<noteq> CHR ''.'' then (take dotIndex p, drop dotIndex p)
         else splitext_loop p (Suc filenameIndex) dotIndex)
      else (p, []))"
  by pat_completeness auto
termination
  by (relation "measure (\<lambda>(p, filenameIndex, dotIndex). dotIndex - filenameIndex)") auto

declare splitext_loop.simps [simp del]

definition splitext :: "string \<Rightarrow> string \<times> string" where
  "splitext p =
     (let sepIndex = rfind p CHR ''/'';
          dotIndex = rfind p CHR ''.''
      in if dotIndex > sepIndex then splitext_loop p (nat (sepIndex + 1)) (nat dotIndex)
         else (p, []))"

definition endswith :: "string \<Rightarrow> string \<Rightarrow> bool" where
  "endswith s suf = (length suf \<le> length s \<and> drop (length s - length suf) s = suf)"

text \<open>
  Modelled from the spec: \<open>io.get_files_from_dir\<close>, which lives in \<open>utils/io.py\<close>
  and is not among the sources. The specification: the immediate children of the
  directory that match a known container extension, in lexical order, become the list.
\<close>

definition get_files_from_dir :: "env \<Rightarrow> string \<Rightarrow> exn + string list" where
  "get_files_from_dir E folder =
     exn_bind (listdir E folder) (\<lambda>names.
       Inr (sort (filter (\<lambda>f. snd (splitext f) \<in> set [''.nc'', ''.zarr'']) names)))"

subsection \<open>EchoDataBase\<close>

text \<open>
  The five data pointers are addressed by name (\<open>arr_type\<close>); \<open>setattr\<close> on
  \<open>'_' + arr_type\<close> and on \<open>'_' + arr_type + '_path'\<close> becomes \<open>set_ptr\<close> and
  \<open>set_path\<close>. A field \<open>priv_x\<close> is the attribute \<open>self._x\<close>.
\<close>

datatype arr_type = T_raw | T_Sv | T_Sv_clean | T_TS | T_MVBS

record echodata =
  priv_raw :: "dataset option"
  priv_Sv :: "dataset option"
  priv_Sv_clean :: "dataset option"
  priv_MVBS :: "dataset option"
  priv_TS :: "dataset option"
  priv_raw_path :: path_spec
  priv_Sv_path :: path_spec
  priv_Sv_clean_path :: path_spec
  priv_TS_path :: path_spec
  priv_MVBS_path :: path_spec
  range_attr :: "dataset option"
  priv_file_format :: "string option"
  priv_open_dataset :: "string option"

definition set_ptr :: "arr_type \<Rightarrow> dataset option \<Rightarrow> echodata \<Rightarrow> echodata" where
  "set_ptr t v self =
     (case t of T_raw \<Rightarrow> self\<lparr>priv_raw := v\<rparr> | T_Sv \<Rightarrow> self\<lparr>priv_Sv := v\<rparr>
      | T_Sv_clean \<Rightarrow> self\<lparr>priv_Sv_clean := v\<rparr> | T_TS \<Rightarrow> self\<lparr>priv_TS := v\<rparr>
      | T_MVBS \<Rightarrow> self\<lparr>priv_MVBS := v\<rparr>)"

definition set_path :: "arr_type \<Rightarrow> path_spec \<Rightarrow> echodata \<Rightarrow> echodata" where
  "set_path t v self =
     (case t of T_raw \<Rightarrow> self\<lparr>priv_raw_path := v\<rparr> | T_Sv \<Rightarrow> self\<lparr>priv_Sv_path := v\<rparr>
      | T_Sv_clean \<Rightarrow> self\<lparr>priv_Sv_clean_path := v\<rparr> | T_TS \<Rightarrow> self\<lparr>priv_TS_path := v\<rparr>
      | T_MVBS \<Rightarrow> self\<lparr>priv_MVBS_path := v\<rparr>)"

definition get_path :: "arr_type \<Rightarrow> echodata \<Rightarrow> path_spec" where
  "get_path t self =
     (case t of T_raw \<Rightarrow> priv_raw_path self | T_Sv \<Rightarrow> priv_Sv_path self
      | T_Sv_clean \<Rightarrow> priv_Sv_clean_path self | T_TS \<Rightarrow> priv_TS_path self
      | T_MVBS \<Rightarrow> priv_MVBS_path self)"

text \<open>
  The property getters print a line and return \<open>None\<close> when the pointer is unset. A
  getter yields the value returned and the lines printed.
\<close>

definition not_calibrated :: string where
  "not_calibrated =
     ''Data has not been calibrated. Call `Process.calibrate(EchoData)` to calibrate.''"

definition Sv :: "echodata \<Rightarrow> dataset option \<times> string list" where
  "Sv self = (if priv_Sv self = None then (None, [not_calibrated]) else (priv_Sv self, []))"

definition Sv_clean :: "echodata \<Rightarrow> dataset option \<times> string list" where
  "Sv_clean self =
     (if priv_Sv_clean self = None then (None, [not_calibrated]) else (priv_Sv_clean self, []))"

definition TS :: "echodata \<Rightarrow> dataset option \<times> string list" where
  "TS self = (if priv_TS self = None then (None, [not_calibrated]) else (priv_TS self, []))"

definition MVBS :: "echodata \<Rightarrow> dataset option \<times> string list" where
  "MVBS self = (if priv_MVBS self = None then (None, [not_calibrated]) else (priv_MVBS self, []))"

definition raw :: "echodata \<Rightarrow> dataset option \<times> string list" where
  "raw self =
     (if priv_raw self = None then (None, [''No raw backscatter data availible''])
      else (priv_raw self, []))"

definition update_file_list :: "env \<Rightarrow> path_spec \<Rightarrow> arr_type \<Rightarrow> echodata \<Rightarrow> exn + echodata" where
  "update_file_list E path file_list self =
     (case path of
        PStr s \<Rightarrow>
          (let ext = snd (splitext s)
           in if ext = [] then
                exn_bind (get_files_from_dir E s) (\<lambda>fs. Inr (set_path file_list (PList fs) self))
              else if ext \<in> set [''.nc'', ''.zarr''] then Inr (set_path file_list (PStr s) self)
              else Inl (ValueError ''Unsupported file path''))
      | PList l \<Rightarrow> Inr (set_path file_list (PList l) self)
      | PNone \<Rightarrow> Inl (ValueError ''Unsupported file path'')
      | POther \<Rightarrow> Inl (ValueError ''Unsupported file path''))"

definition update_data_pointer :: "env \<Rightarrow> path_spec \<Rightarrow> arr_type \<Rightarrow> echodata \<Rightarrow> exn + echodata" where
  "update_data_pointer E path arr_type self =
     (if path = PNone then Inr (set_path arr_type PNone (set_ptr arr_type None self))
      else
        exn_bind (update_file_list E path arr_type self) (\<lambda>self1.
        exn_bind (open_mfdataset E (get_path arr_type self1) no_kwargs) (\<lambda>ds.
        Inr (set_ptr arr_type (Some ds) self1))))"

definition type_name :: "path_spec \<Rightarrow> string" where
  "type_name v = (case v of PNone \<Rightarrow> ''NoneType'' | PStr s \<Rightarrow> ''str'' | PList l \<Rightarrow> ''list''
     | POther \<Rightarrow> ''object'')"

definition set_file_format :: "echodata \<Rightarrow> exn + echodata" where
  "set_file_format self =
     (case priv_raw_path self of
        PStr s \<Rightarrow>
          (if endswith s ''.nc'' then Inr (self\<lparr>priv_file_format := Some ''netcdf''\<rparr>)
           else if endswith s ''.zarr'' then Inr (self\<lparr>priv_file_format := Some ''zarr''\<rparr>)
           else Inr self)
      | v \<Rightarrow> Inl (AttributeError (type_name v) ''endswith''))"

definition set_dataset_handlers :: "echodata \<Rightarrow> echodata" where
  "set_dataset_handlers self =
     (if priv_file_format self = Some ''netcdf'' then self\<lparr>priv_open_dataset := Some ''xr.open_dataset''\<rparr>
      else if priv_file_format self = Some ''zarr'' then self\<lparr>priv_open_dataset := Some ''xr.open_zarr''\<rparr>
      else self)"

text \<open>
  \<open>__init__\<close> in two parts: the assignments up to \<open>self.MVBS_path = MVBS_path\<close>, and
  the rest.
\<close>

definition blank :: echodata where
  "blank = \<lparr>priv_raw = None, priv_Sv = None, priv_Sv_clean = None, priv_MVBS = None,
     priv_TS = None, priv_raw_path = PNone, priv_Sv_path = PNone, priv_Sv_clean_path = PNone,
     priv_TS_path = PNone, priv_MVBS_path = PNone, range_attr = None, priv_file_format = None,
     priv_open_dataset = None\<rparr>"

definition assign_paths ::
  "env \<Rightarrow> path_spec \<Rightarrow> path_spec \<Rightarrow> path_spec \<Rightarrow> path_spec \<Rightarrow> path_spec \<Rightarrow> exn + echodata" where
  "assign_paths E raw_path Sv_path Sv_clean_path TS_path MVBS_path =
     exn_bind (update_data_pointer E raw_path T_raw blank) (\<lambda>self1.
     exn_bind (update_data_pointer E Sv_path T_Sv self1) (\<lambda>self2.
     exn_bind (update_data_pointer E Sv_clean_path T_Sv_clean self2) (\<lambda>self3.
     exn_bind (update_data_pointer E TS_path T_TS self3) (\<lambda>self4.
     update_data_pointer E MVBS_path T_MVBS self4))))"

definition EchoDataBase_init ::
  "env \<Rightarrow> path_spec \<Rightarrow> path_spec \<Rightarrow> path_spec \<Rightarrow> path_spec \<Rightarrow> path_spec \<Rightarrow> exn + echodata" where
  "EchoDataBase_init E raw_path Sv_path Sv_clean_path TS_path MVBS_path =
     exn_bind (assign_paths E raw_path Sv_path Sv_clean_path TS_path MVBS_path) (\<lambda>self5.
     let self6 = self5\<lparr>range_attr := None, priv_file_format := None, priv_open_dataset := None\<rparr>
     in exn_bind (set_file_format self6) (\<lambda>self7. Inr (set_dataset_handlers self7)))"

text \<open>The three subclasses only call \<open>super().__init__\<close> with their arguments.\<close>

definition EchoDataAZFP_init ::
  "env \<Rightarrow> path_spec \<Rightarrow> path_spec \<Rightarrow> path_spec \<Rightarrow> path_spec \<Rightarrow> path_spec \<Rightarrow> exn + echodata" where
  "EchoDataAZFP_init = EchoDataBase_init"

definition EchoDataEK60_init ::
  "env \<Rightarrow> path_spec \<Rightarrow> path_spec \<Rightarrow> path_spec \<Rightarrow> path_spec \<Rightarrow> path_spec \<Rightarrow> exn + echodata" where
  "EchoDataEK60_init = EchoDataBase_init"

definition EchoDataEK80_init ::
  "env \<Rightarrow> path_spec \<Rightarrow> path_spec \<Rightarrow> path_spec \<Rightarrow> path_spec \<Rightarrow> path_spec \<Rightarrow> exn + echodata" where
  "EchoDataEK80_init = EchoDataBase_init"

section \<open>The merge policy behind the AZFP Platform group\<close>

text \<open>
  Modelled from the spec: the merge that
  \<open>xr.open_mfdataset(..., combine='nested', compat='identical')\<close> performs, which is
  xarray's and not among the sources. The specification (MergeIdenticalRequired): the
  variables of the containers are united; the values of overlapping keys must be
  identical or the combine fails with ConflictingMetadata. The group is read from each
  container in the order given and merged into the result one container at a time.
\<close>

definition conflicts :: "(string \<times> 'v) list \<Rightarrow> (string \<times> 'v) list \<Rightarrow> bool" where
  "conflicts a b =
     list_ex (\<lambda>k. map_of a k \<noteq> None \<and> map_of b k \<noteq> None \<and> map_of a k \<noteq> map_of b k)
       (map fst a)"

definition union_alist :: "(string \<times> 'v) list \<Rightarrow> (string \<times> 'v) list \<Rightarrow> (string \<times> 'v) list" where
  "union_alist a b = a @ filter (\<lambda>kv. map_of a (fst kv) = None) b"

definition differ :: "dataset \<Rightarrow> dataset \<Rightarrow> bool" where
  "differ a b = (conflicts (attrs a) (attrs b) \<or> conflicts (data_vars a) (data_vars b))"

definition merge2 :: "dataset \<Rightarrow> dataset \<Rightarrow> exn + dataset" where
  "merge2 a b =
     (if differ a b then Inl ConflictingMetadata
      else Inr \<lparr>attrs = union_alist (attrs a) (attrs b),
                data_vars = union_alist (data_vars a) (data_vars b), chunks = chunks a\<rparr>)"

fun merge_from :: "dataset \<Rightarrow> dataset list \<Rightarrow> exn + dataset" where
  "merge_from acc [] = Inr acc"
| "merge_from acc (b # bs) = exn_bind (merge2 acc b) (\<lambda>acc'. merge_from acc' bs)"

definition merge_identical :: "dataset list \<Rightarrow> exn + dataset" where
  "merge_identical gs =
     (case gs of [] \<Rightarrow> Inl (External ''no files to open'') | g # rest \<Rightarrow> merge_from g rest)"

fun open_all ::
  "(string \<Rightarrow> string option \<Rightarrow> string \<Rightarrow> exn + dataset) \<Rightarrow> string list \<Rightarrow> string option \<Rightarrow> string
     \<Rightarrow> exn + dataset list" where
  "open_all od [] g e = Inr []"
| "open_all od (p # ps) g e =
     exn_bind (od p g e) (\<lambda>d. exn_bind (open_all od ps g e) (\<lambda>ds. Inr (d # ds)))"

definition open_identical ::
  "(string \<Rightarrow> string option \<Rightarrow> string \<Rightarrow> exn + dataset) \<Rightarrow> string list \<Rightarrow> string \<Rightarrow> string
     \<Rightarrow> exn + dataset" where
  "open_identical od paths grp engine =
     exn_bind (open_all od paths (Some grp) engine) merge_identical"

text \<open>
  A merged group extends an input group when it has every attribute and every variable
  of the input, with the input's value.
\<close>

definition extends :: "dataset \<Rightarrow> dataset \<Rightarrow> bool" where
  "extends r a =
     ((\<forall>k v. map_of (attrs a) k = Some v \<longrightarrow> map_of (attrs r) k = Some v) \<and>
      (\<forall>k v. map_of (data_vars a) k = Some v \<longrightarrow> map_of (data_vars r) k = Some v))"

section \<open>Observations on a trace\<close>

text \<open>
  What the theorems read from a trace: for each event its group and, for a save, its
  mode; the groups saved, in order; the datasets saved under one group.
\<close>

definition ev_shape :: "event \<Rightarrow> string option \<times> string option" where
  "ev_shape ev =
     (case ev of OpenDataset p g e \<Rightarrow> (g, None)
      | OpenMfDataset ps kw \<Rightarrow> (kw_group kw, None)
      | Saved w \<Rightarrow> (w_group w, Some (w_mode w)))"

fun saves :: "event list \<Rightarrow> save_call list" where
  "saves [] = []"
| "saves (Saved w # evs) = w # saves evs"
| "saves (ev # evs) = saves evs"

definition saved_groups :: "event list \<Rightarrow> string option list" where
  "saved_groups tr = map w_group (saves tr)"

definition is_group :: "string \<Rightarrow> save_call \<Rightarrow> bool" where
  "is_group g w = (w_group w = Some g)"

definition saved_under :: "event list \<Rightarrow> string \<Rightarrow> dataset list" where
  "saved_under tr g = map w_ds (filter (is_group g) (saves tr))"

text \<open>
  Two properties of a step, used to reason about the chain of steps: the step only
  appends events, of the given shapes and all of them when it does not raise; the step
  only appends events that satisfy a predicate.
\<close>

definition emits :: "step \<Rightarrow> (string option \<times> string option) list \<Rightarrow> bool" where
  "emits s full =
     (\<forall>tr. \<exists>evs. fst (s tr) = tr @ evs \<and> prefix (map ev_shape evs) full \<and>
        (snd (s tr) = None \<longrightarrow> map ev_shape evs = full))"

definition only_emits :: "(event \<Rightarrow> bool) \<Rightarrow> step \<Rightarrow> bool" where
  "only_emits P s = (\<forall>tr. \<exists>evs. fst (s tr) = tr @ evs \<and> list_all P evs)"



text \<open>
  Where a saved dataset comes from: one rule for each \<open>io.save_file\<close> call of
  \<open>perform_combination\<close>, with the library results it was computed from.
\<close>

inductive origin :: "env \<Rightarrow> string \<Rightarrow> string list \<Rightarrow> string \<Rightarrow> string \<Rightarrow> save_call \<Rightarrow> bool"
  for E :: env and m :: string and ps :: "string list" and out :: string and eng :: string
  where
  o_top: "ps = p # rest \<Longrightarrow> open_dataset E p None eng = Inr ds \<Longrightarrow>
      origin E m ps out eng
        \<lparr>w_ds = ds, w_path = out, w_mode = ''w'', w_engine = eng, w_group = None\<rparr>"
| o_sonar: "ps = p # rest \<Longrightarrow> open_dataset E p (Some ''Sonar'') eng = Inr ds \<Longrightarrow>
      origin E m ps out eng
        \<lparr>w_ds = ds, w_path = out, w_mode = ''a'', w_engine = eng, w_group = Some ''Sonar''\<rparr>"
| o_prov: "origin E m ps out eng
        \<lparr>w_ds = assemble_combined_provenance E ps, w_path = out, w_mode = ''a'',
          w_engine = eng, w_group = Some ''Provenance''\<rparr>"
| o_beam: "open_mfdataset E (PList ps)
        (no_kwargs\<lparr>kw_group := Some ''Beam'', kw_concat_dim := Some (Dim ''ping_time''),
                   kw_data_vars := Some ''minimal'', kw_engine := Some eng\<rparr>) = Inr ds \<Longrightarrow>
      coerce_type m ds ''Beam'' = Inr ds' \<Longrightarrow>
      origin E m ps out eng
        \<lparr>w_ds = chunk [(''range_bin'', 25000), (''ping_time'', 2500)] ds', w_path = out,
          w_mode = ''a'', w_engine = eng, w_group = Some ''Beam''\<rparr>"
| o_env: "open_mfdataset E (PList ps)
        (no_kwargs\<lparr>kw_group := Some ''Environment'', kw_concat_dim := Some (Dim ''ping_time''),
                   kw_data_vars := Some ''minimal'', kw_engine := Some eng\<rparr>) = Inr ds \<Longrightarrow>
      origin E m ps out eng
        \<lparr>w_ds = chunk [(''ping_time'', 2500)] ds, w_path = out, w_mode = ''a'',
          w_engine = eng, w_group = Some ''Environment''\<rparr>"
| o_plat_azfp: "m = ''AZFP'' \<Longrightarrow>
      open_mfdataset E (PList ps)
        (no_kwargs\<lparr>kw_group := Some ''Platform'', kw_combine := Some ''nested'',
                   kw_compat := Some ''identical'', kw_engine := Some eng\<rparr>) = Inr ds \<Longrightarrow>
      origin E m ps out eng
        \<lparr>w_ds = ds, w_path = out, w_mode = ''a'', w_engine = eng, w_group = Some ''Platform''\<rparr>"
| o_plat_ek80: "m = ''EK80'' \<or> m = ''EA640'' \<Longrightarrow>
      open_mfdataset E (PList ps)
        (no_kwargs\<lparr>kw_group := Some ''Platform'',
                   kw_concat_dim := Some (Dims [''location_time'', ''mru_time'']),
                   kw_data_vars := Some ''minimal'', kw_engine := Some eng\<rparr>) = Inr ds \<Longrightarrow>
      origin E m ps out eng
        \<lparr>w_ds = chunk [(''location_time'', 2500), (''mru_time'', 2500)] ds, w_path = out,
          w_mode = ''a'', w_engine = eng, w_group = Some ''Platform''\<rparr>"
| o_plat_ek60: "m = ''EK60'' \<Longrightarrow>
      open_mfdataset E (PList ps)
        (no_kwargs\<lparr>kw_group := Some ''Platform'',
                   kw_concat_dim := Some (Dims [''location_time'', ''ping_time'']),
                   kw_data_vars := Some ''minimal'', kw_engine := Some eng\<rparr>) = Inr ds \<Longrightarrow>
      origin E m ps out eng
        \<lparr>w_ds = chunk [(''location_time'', 2500), (''ping_time'', 2500)] ds, w_path = out,
          w_mode = ''a'', w_engine = eng, w_group = Some ''Platform''\<rparr>"
| o_nmea: "m = ''EK60'' \<or> m = ''EK80'' \<or> m = ''EA640'' \<Longrightarrow>
      open_mfdataset E (PList ps)
        (no_kwargs\<lparr>kw_group := Some ''Platform/NMEA'',
                   kw_concat_dim := Some (Dim ''location_time''),
                   kw_data_vars := Some ''minimal'', kw_engine := Some eng\<rparr>) = Inr ds \<Longrightarrow>
      origin E m ps out eng
        \<lparr>w_ds = astype_str (chunk [(''location_time'', 2500)] ds), w_path = out,
          w_mode = ''a'', w_engine = eng, w_group = Some ''Platform/NMEA''\<rparr>"
| o_vendor: "open_mfdataset E (PList ps)
        (no_kwargs\<lparr>kw_group := Some ''Vendor'', kw_combine := Some ''nested'',
                   kw_compat := Some ''no_conflicts'', kw_data_vars := Some ''minimal'',
                   kw_engine := Some eng\<rparr>) = Inr ds \<Longrightarrow>
      origin E m ps out eng
        \<lparr>w_ds = ds, w_path = out, w_mode = ''a'', w_engine = eng, w_group = Some ''Vendor''\<rparr>"

definition from_origin ::
  "env \<Rightarrow> string \<Rightarrow> string list \<Rightarrow> string \<Rightarrow> string \<Rightarrow> event \<Rightarrow> bool" where
  "from_origin E m ps out eng ev =
     (case ev of Saved w \<Rightarrow> origin E m ps out eng w | _ \<Rightarrow> True)"

section \<open>Concrete inputs\<close>

definition ds_a :: dataset where
  "ds_a = \<lparr>attrs = [(''sonar_convention_name'', AStr ''SONAR-netCDF4'')],
     data_vars = [(''gpt_software_version'', [''070413'', ''070413-build-2219'']),
                  (''transceiver_software_version'', [''2.46.1-build77'']),
                  (''channel_id'', [''GPT  38 kHz 009072058c8d 1-1 ES38B'',
                     ''WBT 545612-15 ES120-7C serial 0123456789 extra long name''])],
     chunks = []\<rparr>"

definition E_ok :: env where
  "E_ok = \<lparr>open_dataset = (\<lambda>p g e. Inr ds_a), open_mfdataset = (\<lambda>ps kw. Inr ds_a),
     save_file = (\<lambda>tr w. None),
     listdir = (\<lambda>p. Inr [''b.zarr'', ''notes.txt'', ''a.zarr'', ''c.nc'']),
     utcnow = \<lparr>year = 2021, month = 3, day = 9, hour = 7, minute = 5, second = 42,
       microsecond = 123456\<rparr>,
     ECHOPYPE_VERSION = ''0.5.0''\<rparr>"

definition plat_a :: dataset where
  "plat_a = \<lparr>attrs = [(''platform_name'', AStr ''mooring A'')],
     data_vars = [(''water_level'', [''0.0''])], chunks = []\<rparr>"

definition plat_b :: dataset where
  "plat_b = \<lparr>attrs = [(''platform_name'', AStr ''mooring B'')],
     data_vars = [(''water_level'', [''0.0''])], chunks = []\<rparr>"

definition od_azfp :: "string \<Rightarrow> string option \<Rightarrow> string \<Rightarrow> exn + dataset" where
  "od_azfp p g e = (if p = ''b.nc'' then Inr plat_b else Inr plat_a)"

definition E_azfp :: env where
  "E_azfp = E_ok\<lparr>open_dataset := od_azfp,
     open_mfdataset := (\<lambda>ps kw. case ps of PList l \<Rightarrow> open_identical od_azfp l ''Platform'' ''netcdf4''
        | _ \<Rightarrow> Inl (External ''no files to open''))\<rparr>"

definition beam_save_EK60 :: save_call where
  "beam_save_EK60 =
     \<lparr>w_ds = \<lparr>attrs = [(''sonar_convention_name'', AStr ''SONAR-netCDF4'')],
         data_vars = [(''gpt_software_version'', [''070413'', ''070413-bui'']),
                      (''transceiver_software_version'', [''2.46.1-build77'']),
                      (''channel_id'', [''GPT  38 kHz 009072058c8d 1-1 ES38B'',
                         ''WBT 545612-15 ES120-7C serial 0123456789 extra lon''])],
         chunks = [(''range_bin'', 25000), (''ping_time'', 2500)]\<rparr>,
       w_path = ''out.nc'', w_mode = ''a'', w_engine = ''netcdf4'', w_group = Some ''Beam''\<rparr>"

definition ed_x :: echodata where
  "ed_x = blank\<lparr>priv_raw := Some ds_a, priv_raw_path := PStr ''x.nc'',
     priv_file_format := Some ''netcdf'', priv_open_dataset := Some ''xr.open_dataset''\<rparr>"

section \<open>The steps of a combine call\<close>

lemmas step_defs = save_step_def open_step_def first_step_def chunked_save_def then_step_def
  combine_toplevel_def combine_sonar_def combine_provenance_def combine_beam_def
  combine_environment_def combine_platform_def combine_nmea_def combine_vendor_def

lemma chunk_sizes_simps:
  "chunk_sizes [(''range_bin'', ''range_bin''), (''ping_time'', ''ping_time'')] = Inr [(''range_bin'', 25000), (''ping_time'', 2500)]"
  "chunk_sizes [(''ping_time'', ''ping_time'')] = Inr [(''ping_time'', 2500)]"
  "chunk_sizes [(''location_time'', ''ping_time''), (''mru_time'', ''ping_time'')] = Inr [(''location_time'', 2500), (''mru_time'', 2500)]"
  "chunk_sizes [(''location_time'', ''ping_time''), (''ping_time'', ''ping_time'')] = Inr [(''location_time'', 2500), (''ping_time'', 2500)]"
  "chunk_sizes [(''location_time'', ''ping_time'')] = Inr [(''location_time'', 2500)]"
  by (simp_all add: chunk_sizes_def getitem_def DEFAULT_CHUNK_SIZE_def exn_bind_def)

lemma emits_then:
  assumes "emits s f1" and "emits t f2"
  shows "emits (then_step s t) (f1 @ f2)"
  unfolding emits_def
proof
  fix tr
  from assms(1) obtain e1 where e1: "fst (s tr) = tr @ e1" "prefix (map ev_shape e1) f1"
    "snd (s tr) = None \<longrightarrow> map ev_shape e1 = f1"
    unfolding emits_def by blast
  show "\<exists>evs. fst (then_step s t tr) = tr @ evs \<and> prefix (map ev_shape evs) (f1 @ f2) \<and>
      (snd (then_step s t tr) = None \<longrightarrow> map ev_shape evs = f1 @ f2)"
  proof (cases "snd (s tr)")
    case None
    from assms(2) obtain e2 where e2: "fst (t (tr @ e1)) = (tr @ e1) @ e2"
      "prefix (map ev_shape e2) f2" "snd (t (tr @ e1)) = None \<longrightarrow> map ev_shape e2 = f2"
      unfolding emits_def by blast
    have st: "s tr = (tr @ e1, None)" using e1(1) None by (simp add: prod_eq_iff)
    have "then_step s t tr = t (tr @ e1)" by (simp add: then_step_def st)
    with e1 e2 None show ?thesis by (intro exI[of _ "e1 @ e2"]) simp
  next
    case (Some x)
    have st: "s tr = (tr @ e1, Some x)" using e1(1) Some by (simp add: prod_eq_iff)
    have "then_step s t tr = (tr @ e1, Some x)" by (simp add: then_step_def st)
    with e1 show ?thesis by (intro exI[of _ e1]) (simp add: prefix_def, auto)
  qed
qed

lemma emits_save: "emits (save_step E ds p m e g) [(g, Some m)]"
  by (auto simp: emits_def save_step_def ev_shape_def Let_def split: option.splits)

lemma emits_open:
  assumes "\<And>ds. emits (body ds) f"
  shows "emits (open_step E ps kw body) ((kw_group kw, None) # f)"
  unfolding emits_def
proof
  fix tr
  show "\<exists>evs. fst (open_step E ps kw body tr) = tr @ evs \<and>
     prefix (map ev_shape evs) ((kw_group kw, None) # f) \<and>
     (snd (open_step E ps kw body tr) = None \<longrightarrow> map ev_shape evs = (kw_group kw, None) # f)"
  proof (cases "open_mfdataset E (PList ps) kw")
    case (Inl e)
    then show ?thesis by (intro exI[of _ "[]"]) (simp add: open_step_def)
  next
    case (Inr ds)
    from assms[of ds] obtain e2 where e2: "fst (body ds (tr @ [OpenMfDataset ps kw])) = (tr @ [OpenMfDataset ps kw]) @ e2"
      "prefix (map ev_shape e2) f" "snd (body ds (tr @ [OpenMfDataset ps kw])) = None \<longrightarrow> map ev_shape e2 = f"
      unfolding emits_def by blast
    with Inr show ?thesis
      by (intro exI[of _ "OpenMfDataset ps kw # e2"]) (simp add: open_step_def ev_shape_def)
  qed
qed

lemma emits_first:
  assumes "\<And>ds. emits (body ds) f"
  shows "emits (first_step E ps g eng body) ((g, None) # f)"
  unfolding emits_def
proof
  fix tr
  show "\<exists>evs. fst (first_step E ps g eng body tr) = tr @ evs \<and>
     prefix (map ev_shape evs) ((g, None) # f) \<and>
     (snd (first_step E ps g eng body tr) = None \<longrightarrow> map ev_shape evs = (g, None) # f)"
  proof (cases ps)
    case Nil
    then show ?thesis by (intro exI[of _ "[]"]) (simp add: first_step_def)
  next
    case (Cons p rest)
    show ?thesis
    proof (cases "open_dataset E p g eng")
      case (Inl e)
      with Cons show ?thesis by (intro exI[of _ "[]"]) (simp add: first_step_def)
    next
      case (Inr ds)
      from assms[of ds] obtain e2 where e2: "fst (body ds (tr @ [OpenDataset p g eng])) = (tr @ [OpenDataset p g eng]) @ e2"
        "prefix (map ev_shape e2) f" "snd (body ds (tr @ [OpenDataset p g eng])) = None \<longrightarrow> map ev_shape e2 = f"
        unfolding emits_def by blast
      with Inr Cons show ?thesis
        by (intro exI[of _ "OpenDataset p g eng # e2"]) (simp add: first_step_def ev_shape_def)
    qed
  qed
qed

lemma emits_chunked: "emits (chunked_save E dims post ds p e g) [(Some g, Some ''a'')]"
proof (cases "chunk_sizes dims")
  case (Inl x)
  then show ?thesis by (auto simp: emits_def chunked_save_def)
next
  case (Inr c)
  have "chunked_save E dims post ds p e g = save_step E (post (chunk c ds)) p ''a'' e (Some g)"
    by (rule ext) (simp add: chunked_save_def Inr)
  then show ?thesis by (simp add: emits_save)
qed

lemma emits_skip: "emits (\<lambda>tr. (tr, None)) []"
  by (simp add: emits_def)


lemma emits_toplevel: "emits (combine_toplevel E ps out eng) [(None, None), (None, Some ''w'')]"
  unfolding combine_toplevel_def by (intro emits_first emits_save)

lemma emits_sonar:
  "emits (combine_sonar E ps out eng) [(Some ''Sonar'', None), (Some ''Sonar'', Some ''a'')]"
  unfolding combine_sonar_def by (intro emits_first emits_save)

lemma emits_provenance:
  "emits (combine_provenance E ps out eng) [(Some ''Provenance'', Some ''a'')]"
  unfolding combine_provenance_def Let_def by (rule emits_save)

lemma emits_case_sum:
  assumes "\<And>x. emits (g x) f"
  shows "emits (\<lambda>tr. case c of Inl e \<Rightarrow> (tr, Some e) | Inr x \<Rightarrow> g x tr) f"
  using assms by (cases c) (auto simp: emits_def)

lemma emits_open_beam:
  assumes "kw_group kw = Some ''Beam''"
  shows "emits (open_step E ps kw (\<lambda>ds_beam tr. case coerce_type m ds_beam ''Beam'' of
            Inl e \<Rightarrow> (tr, Some e)
          | Inr ds_beam' \<Rightarrow> chunked_save E dims (\<lambda>ds. ds) ds_beam' out eng ''Beam'' tr))
        [(Some ''Beam'', None), (Some ''Beam'', Some ''a'')]"
proof -
  have "emits (open_step E ps kw (\<lambda>ds_beam tr. case coerce_type m ds_beam ''Beam'' of
            Inl e \<Rightarrow> (tr, Some e)
          | Inr ds_beam' \<Rightarrow> chunked_save E dims (\<lambda>ds. ds) ds_beam' out eng ''Beam'' tr))
        ((kw_group kw, None) # [(Some ''Beam'', Some ''a'')])"
    by (intro emits_open emits_case_sum emits_chunked)
  with assms show ?thesis by simp
qed

lemma emits_beam:
  "emits (combine_beam E m ps out eng) [(Some ''Beam'', None), (Some ''Beam'', Some ''a'')]"
  unfolding combine_beam_def by (rule emits_open_beam) (simp add: no_kwargs_def)

lemma emits_open_chunked:
  "kw_group kw = Some g \<Longrightarrow>
   emits (open_step E ps kw (\<lambda>ds. chunked_save E dims post ds out eng g))
     [(Some g, None), (Some g, Some ''a'')]"
  using emits_open[of "\<lambda>ds. chunked_save E dims post ds out eng g" "[(Some g, Some ''a'')]" E ps kw]
  by (simp add: emits_chunked)

lemma emits_open_save:
  "kw_group kw = Some g \<Longrightarrow>
   emits (open_step E ps kw (\<lambda>ds. save_step E ds out ''a'' eng (Some g)))
     [(Some g, None), (Some g, Some ''a'')]"
  using emits_open[of "\<lambda>ds. save_step E ds out ''a'' eng (Some g)" "[(Some g, Some ''a'')]" E ps kw]
  by (simp add: emits_save)

lemma emits_environment:
  "emits (combine_environment E ps out eng)
     [(Some ''Environment'', None), (Some ''Environment'', Some ''a'')]"
  unfolding combine_environment_def by (rule emits_open_chunked) (simp add: no_kwargs_def)

lemma emits_platform:
  "emits (combine_platform E m ps out eng)
     (if m \<in> {''AZFP'', ''EK80'', ''EA640'', ''EK60''}
      then [(Some ''Platform'', None), (Some ''Platform'', Some ''a'')] else [])"
  unfolding combine_platform_def
  by (auto simp: no_kwargs_def emits_skip intro!: emits_open_chunked emits_open_save)

lemma emits_nmea:
  "emits (combine_nmea E m ps out eng)
     (if m \<in> {''EK60'', ''EK80'', ''EA640''}
      then [(Some ''Platform/NMEA'', None), (Some ''Platform/NMEA'', Some ''a'')] else [])"
  unfolding combine_nmea_def
  by (auto simp: no_kwargs_def emits_skip intro!: emits_open_chunked)

lemma emits_vendor:
  "emits (combine_vendor E ps out eng) [(Some ''Vendor'', None), (Some ''Vendor'', Some ''a'')]"
  unfolding combine_vendor_def by (rule emits_open_save) (simp add: no_kwargs_def)

lemma emits_all:
  "emits (then_step (combine_toplevel E ps out eng)
    (then_step (combine_sonar E ps out eng)
    (then_step (combine_provenance E ps out eng)
    (then_step (combine_beam E m ps out eng)
    (then_step (combine_environment E ps out eng)
    (then_step (combine_platform E m ps out eng)
    (then_step (combine_nmea E m ps out eng)
               (combine_vendor E ps out eng))))))))
    ([(None, None), (None, Some ''w'')] @ [(Some ''Sonar'', None), (Some ''Sonar'', Some ''a'')] @
      [(Some ''Provenance'', Some ''a'')] @ [(Some ''Beam'', None), (Some ''Beam'', Some ''a'')] @
      [(Some ''Environment'', None), (Some ''Environment'', Some ''a'')] @
      (if m \<in> {''AZFP'', ''EK80'', ''EA640'', ''EK60''}
       then [(Some ''Platform'', None), (Some ''Platform'', Some ''a'')] else []) @
      (if m \<in> {''EK60'', ''EK80'', ''EA640''}
       then [(Some ''Platform/NMEA'', None), (Some ''Platform/NMEA'', Some ''a'')] else []) @
      [(Some ''Vendor'', None), (Some ''Vendor'', Some ''a'')])"
  by (intro emits_then emits_toplevel emits_sonar emits_provenance emits_beam emits_environment
      emits_platform emits_nmea emits_vendor)

lemma emits_run:
  assumes "emits s full"
  shows "prefix (map ev_shape (fst (s []))) full \<and> (snd (s []) = None \<longrightarrow> map ev_shape (fst (s [])) = full)"
proof -
  from assms obtain evs where "fst (s []) = [] @ evs" "prefix (map ev_shape evs) full"
    "snd (s []) = None \<longrightarrow> map ev_shape evs = full" unfolding emits_def by blast
  then show ?thesis by simp
qed


lemma run_EK60:
  "perform_combination E_ok ''EK60'' [''a.nc'', ''b.nc''] ''out.nc'' ''netcdf4'' =
     ([OpenDataset ''a.nc'' None ''netcdf4'',
       Saved \<lparr>w_ds = ds_a, w_path = ''out.nc'', w_mode = ''w'', w_engine = ''netcdf4'',
         w_group = None\<rparr>,
       OpenDataset ''a.nc'' (Some ''Sonar'') ''netcdf4'',
       Saved \<lparr>w_ds = ds_a, w_path = ''out.nc'', w_mode = ''a'', w_engine = ''netcdf4'',
         w_group = Some ''Sonar''\<rparr>,
       Saved \<lparr>w_ds = assemble_combined_provenance E_ok [''a.nc'', ''b.nc''],
         w_path = ''out.nc'', w_mode = ''a'', w_engine = ''netcdf4'',
         w_group = Some ''Provenance''\<rparr>,
       OpenMfDataset [''a.nc'', ''b.nc'']
         \<lparr>kw_group = Some ''Beam'', kw_concat_dim = Some (Dim ''ping_time''),
           kw_data_vars = Some ''minimal'', kw_combine = None, kw_compat = None,
           kw_engine = Some ''netcdf4''\<rparr>,
       Saved \<lparr>w_ds = \<lparr>attrs = [(''sonar_convention_name'', AStr ''SONAR-netCDF4'')],
           data_vars = [(''gpt_software_version'', [''070413'', ''070413-bui'']),
                        (''transceiver_software_version'', [''2.46.1-build77'']),
                        (''channel_id'', [''GPT  38 kHz 009072058c8d 1-1 ES38B'',
                           ''WBT 545612-15 ES120-7C serial 0123456789 extra lon''])],
           chunks = [(''range_bin'', 25000), (''ping_time'', 2500)]\<rparr>,
         w_path = ''out.nc'', w_mode = ''a'', w_engine = ''netcdf4'', w_group = Some ''Beam''\<rparr>,
       OpenMfDataset [''a.nc'', ''b.nc'']
         \<lparr>kw_group = Some ''Environment'', kw_concat_dim = Some (Dim ''ping_time''),
           kw_data_vars = Some ''minimal'', kw_combine = None, kw_compat = None,
           kw_engine = Some ''netcdf4''\<rparr>,
       Saved \<lparr>w_ds = ds_a\<lparr>chunks := [(''ping_time'', 2500)]\<rparr>,
         w_path = ''out.nc'', w_mode = ''a'', w_engine = ''netcdf4'',
         w_group = Some ''Environment''\<rparr>,
       OpenMfDataset [''a.nc'', ''b.nc'']
         \<lparr>kw_group = Some ''Platform'',
           kw_concat_dim = Some (Dims [''location_time'', ''ping_time'']),
           kw_data_vars = Some ''minimal'', kw_combine = None, kw_compat = None,
           kw_engine = Some ''netcdf4''\<rparr>,
       Saved \<lparr>w_ds = ds_a\<lparr>chunks := [(''location_time'', 2500), (''ping_time'', 2500)]\<rparr>,
         w_path = ''out.nc'', w_mode = ''a'', w_engine = ''netcdf4'',
         w_group = Some ''Platform''\<rparr>,
       OpenMfDataset [''a.nc'', ''b.nc'']
         \<lparr>kw_group = Some ''Platform/NMEA'', kw_concat_dim = Some (Dim ''location_time''),
           kw_data_vars = Some ''minimal'', kw_combine = None, kw_compat = None,
           kw_engine = Some ''netcdf4''\<rparr>,
       Saved \<lparr>w_ds = ds_a\<lparr>chunks := [(''location_time'', 2500)]\<rparr>,
         w_path = ''out.nc'', w_mode = ''a'', w_engine = ''netcdf4'',
         w_group = Some ''Platform/NMEA''\<rparr>,
       OpenMfDataset [''a.nc'', ''b.nc'']
         \<lparr>kw_group = Some ''Vendor'', kw_concat_dim = None, kw_data_vars = Some ''minimal'',
           kw_combine = Some ''nested'', kw_compat = Some ''no_conflicts'',
           kw_engine = Some ''netcdf4''\<rparr>,
       Saved \<lparr>w_ds = ds_a, w_path = ''out.nc'', w_mode = ''a'', w_engine = ''netcdf4'',
         w_group = Some ''Vendor''\<rparr>], None)"
  by (simp add: perform_combination_def step_defs chunk_sizes_simps E_ok_def coerce_type_def
      exn_bind_def getitem_def ds_a_def setitem_def chunk_def astype_U_def astype_str_def
      no_kwargs_def)

section \<open>The order in which the groups are saved\<close>

text \<open>
  C1 (as amended). A combine call handles the groups in the fixed order top level, Sonar,
  Provenance, Beam, Environment, Platform (for AZFP, EK80, EA640 and EK60), Platform/NMEA
  (for EK60, EK80 and EA640), Vendor. Each group is opened and then saved before the next
  one is opened (Provenance is built, not opened); the first save uses mode \<open>w\<close> and
  every later one mode \<open>a\<close>. A call that raises leaves a prefix of this sequence; a call
  that does not raise leaves all of it. The order differs from the claim's in one place:
  Beam comes before Environment.
\<close>

theorem combine_group_sequence:
  "prefix (map ev_shape (fst (perform_combination E sonar_model input_paths output_path engine)))
     ([(None, None), (None, Some ''w''), (Some ''Sonar'', None), (Some ''Sonar'', Some ''a''),
       (Some ''Provenance'', Some ''a''), (Some ''Beam'', None), (Some ''Beam'', Some ''a''),
       (Some ''Environment'', None), (Some ''Environment'', Some ''a'')] @
      (if sonar_model \<in> {''AZFP'', ''EK80'', ''EA640'', ''EK60''}
       then [(Some ''Platform'', None), (Some ''Platform'', Some ''a'')] else []) @
      (if sonar_model \<in> {''EK60'', ''EK80'', ''EA640''}
       then [(Some ''Platform/NMEA'', None), (Some ''Platform/NMEA'', Some ''a'')] else []) @
      [(Some ''Vendor'', None), (Some ''Vendor'', Some ''a'')])
   \<and> (snd (perform_combination E sonar_model input_paths output_path engine) = None \<longrightarrow>
      map ev_shape (fst (perform_combination E sonar_model input_paths output_path engine)) =
      [(None, None), (None, Some ''w''), (Some ''Sonar'', None), (Some ''Sonar'', Some ''a''),
       (Some ''Provenance'', Some ''a''), (Some ''Beam'', None), (Some ''Beam'', Some ''a''),
       (Some ''Environment'', None), (Some ''Environment'', Some ''a'')] @
      (if sonar_model \<in> {''AZFP'', ''EK80'', ''EA640'', ''EK60''}
       then [(Some ''Platform'', None), (Some ''Platform'', Some ''a'')] else []) @
      (if sonar_model \<in> {''EK60'', ''EK80'', ''EA640''}
       then [(Some ''Platform/NMEA'', None), (Some ''Platform/NMEA'', Some ''a'')] else []) @
      [(Some ''Vendor'', None), (Some ''Vendor'', Some ''a'')])"
  using emits_run[OF emits_all[of E input_paths output_path engine sonar_model]]
  unfolding perform_combination_def by simp

theorem combine_group_sequence_witness:
  "map ev_shape (fst (perform_combination E_ok ''EK60'' [''a.nc'', ''b.nc''] ''out.nc'' ''netcdf4''))
     = [(None, None), (None, Some ''w''), (Some ''Sonar'', None), (Some ''Sonar'', Some ''a''),
        (Some ''Provenance'', Some ''a''), (Some ''Beam'', None), (Some ''Beam'', Some ''a''),
        (Some ''Environment'', None), (Some ''Environment'', Some ''a''),
        (Some ''Platform'', None), (Some ''Platform'', Some ''a''),
        (Some ''Platform/NMEA'', None), (Some ''Platform/NMEA'', Some ''a''),
        (Some ''Vendor'', None), (Some ''Vendor'', Some ''a'')]"
proof -
  have ok: "snd (perform_combination E_ok ''EK60'' [''a.nc'', ''b.nc''] ''out.nc'' ''netcdf4'') = None"
    by (simp add: run_EK60)
  show ?thesis
    using combine_group_sequence[of E_ok "''EK60''" "[''a.nc'', ''b.nc'']" "''out.nc''" "''netcdf4''"] ok
    by simp
qed

text \<open>
  The order the claim gives, with Environment saved before Beam, is not the order of a
  run on two EK60 files.
\<close>

theorem combine_group_sequence_counterexample:
  "saved_groups (fst (perform_combination E_ok ''EK60'' [''a.nc'', ''b.nc''] ''out.nc'' ''netcdf4''))
     \<noteq> [None, Some ''Sonar'', Some ''Provenance'', Some ''Environment'', Some ''Beam'',
         Some ''Platform'', Some ''Platform/NMEA'', Some ''Vendor'']"
  by (simp add: run_EK60 saved_groups_def)

section \<open>A sonar model the combine call does not know\<close>






lemma coerce_type_other:
  "sonar_model \<noteq> ''EK80'' \<Longrightarrow> sonar_model \<noteq> ''EK60'' \<Longrightarrow> coerce_type sonar_model ds g = Inr ds"
  by (simp add: coerce_type_def)







section \<open>Where a saved dataset comes from\<close>

lemma only_then:
  assumes "only_emits P s" and "only_emits P t"
  shows "only_emits P (then_step s t)"
  unfolding only_emits_def
proof
  fix tr
  from assms(1) obtain e1 where e1: "fst (s tr) = tr @ e1" "list_all P e1"
    unfolding only_emits_def by blast
  show "\<exists>evs. fst (then_step s t tr) = tr @ evs \<and> list_all P evs"
  proof (cases "snd (s tr)")
    case None
    from assms(2) obtain e2 where e2: "fst (t (tr @ e1)) = (tr @ e1) @ e2" "list_all P e2"
      unfolding only_emits_def by blast
    have st: "s tr = (tr @ e1, None)" using e1(1) None by (simp add: prod_eq_iff)
    have "then_step s t tr = t (tr @ e1)" by (simp add: then_step_def st)
    with e1 e2 show ?thesis by (intro exI[of _ "e1 @ e2"]) simp
  next
    case (Some x)
    have st: "s tr = (tr @ e1, Some x)" using e1(1) Some by (simp add: prod_eq_iff)
    have "then_step s t tr = (tr @ e1, Some x)" by (simp add: then_step_def st)
    with e1 show ?thesis by (intro exI[of _ e1]) simp
  qed
qed

lemma only_save:
  assumes "P (Saved \<lparr>w_ds = ds, w_path = p, w_mode = m, w_engine = e, w_group = g\<rparr>)"
  shows "only_emits P (save_step E ds p m e g)"
  using assms by (auto simp: only_emits_def save_step_def Let_def split: option.splits)

lemma only_open:
  assumes "P (OpenMfDataset ps kw)"
    and "\<And>ds. open_mfdataset E (PList ps) kw = Inr ds \<Longrightarrow> only_emits P (body ds)"
  shows "only_emits P (open_step E ps kw body)"
  unfolding only_emits_def
proof
  fix tr
  show "\<exists>evs. fst (open_step E ps kw body tr) = tr @ evs \<and> list_all P evs"
  proof (cases "open_mfdataset E (PList ps) kw")
    case (Inl e)
    then show ?thesis by (intro exI[of _ "[]"]) (simp add: open_step_def)
  next
    case (Inr ds)
    from assms(2)[OF Inr] obtain e2 where
      e2: "fst (body ds (tr @ [OpenMfDataset ps kw])) = (tr @ [OpenMfDataset ps kw]) @ e2"
      "list_all P e2"
      unfolding only_emits_def by blast
    with Inr assms(1) show ?thesis
      by (intro exI[of _ "OpenMfDataset ps kw # e2"]) (simp add: open_step_def)
  qed
qed

lemma only_first:
  assumes "\<And>p. P (OpenDataset p g eng)"
    and "\<And>p rest ds. ps = p # rest \<Longrightarrow> open_dataset E p g eng = Inr ds \<Longrightarrow> only_emits P (body ds)"
  shows "only_emits P (first_step E ps g eng body)"
  unfolding only_emits_def
proof
  fix tr
  show "\<exists>evs. fst (first_step E ps g eng body tr) = tr @ evs \<and> list_all P evs"
  proof (cases ps)
    case Nil
    then show ?thesis by (intro exI[of _ "[]"]) (simp add: first_step_def)
  next
    case (Cons p rest)
    show ?thesis
    proof (cases "open_dataset E p g eng")
      case (Inl e)
      with Cons show ?thesis by (intro exI[of _ "[]"]) (simp add: first_step_def)
    next
      case (Inr ds)
      from assms(2)[OF Cons Inr] obtain e2 where
        e2: "fst (body ds (tr @ [OpenDataset p g eng])) = (tr @ [OpenDataset p g eng]) @ e2"
        "list_all P e2"
        unfolding only_emits_def by blast
      with Inr Cons assms(1) show ?thesis
        by (intro exI[of _ "OpenDataset p g eng # e2"]) (simp add: first_step_def)
    qed
  qed
qed

lemma only_chunked:
  assumes "chunk_sizes dims = Inr c"
    and "P (Saved \<lparr>w_ds = post (chunk c ds), w_path = p, w_mode = ''a'', w_engine = e,
          w_group = Some g\<rparr>)"
  shows "only_emits P (chunked_save E dims post ds p e g)"
proof -
  have "chunked_save E dims post ds p e g = save_step E (post (chunk c ds)) p ''a'' e (Some g)"
    by (rule ext) (simp add: chunked_save_def assms(1))
  with assms(2) show ?thesis by (simp add: only_save)
qed

lemma only_case_sum:
  assumes "\<And>x. c = Inr x \<Longrightarrow> only_emits P (g x)"
  shows "only_emits P (\<lambda>tr. case c of Inl e \<Rightarrow> (tr, Some e) | Inr x \<Rightarrow> g x tr)"
  using assms by (cases c) (auto simp: only_emits_def)

lemma only_skip: "only_emits P (\<lambda>tr. (tr, None))"
  by (simp add: only_emits_def)

lemma only_run:
  assumes "only_emits P s" and "ev \<in> set (fst (s []))"
  shows "P ev"
proof -
  from assms(1) obtain evs where "fst (s []) = [] @ evs" "list_all P evs"
    unfolding only_emits_def by blast
  with assms(2) show ?thesis by (simp add: list_all_iff)
qed

lemma fo_open [simp]: "from_origin E m ps out eng (OpenMfDataset qs kw)"
  and fo_first [simp]: "from_origin E m ps out eng (OpenDataset p g e)"
  and fo_saved [simp]: "from_origin E m ps out eng (Saved w) = origin E m ps out eng w"
  by (simp_all add: from_origin_def)

lemma origin_toplevel: "only_emits (from_origin E m ps out eng) (combine_toplevel E ps out eng)"
  unfolding combine_toplevel_def
  by (intro only_first only_save) (auto intro: origin.intros)

lemma origin_sonar: "only_emits (from_origin E m ps out eng) (combine_sonar E ps out eng)"
  unfolding combine_sonar_def
  by (intro only_first only_save) (auto intro: origin.intros)

lemma origin_provenance:
  "only_emits (from_origin E m ps out eng) (combine_provenance E ps out eng)"
  unfolding combine_provenance_def Let_def
  by (intro only_save) (auto intro: origin.intros)

lemma origin_beam: "only_emits (from_origin E m ps out eng) (combine_beam E m ps out eng)"
  unfolding combine_beam_def
  by (intro only_open only_case_sum only_chunked[OF chunk_sizes_simps(1)])
    (auto intro: origin.intros)

lemma origin_environment:
  "only_emits (from_origin E m ps out eng) (combine_environment E ps out eng)"
  unfolding combine_environment_def
  by (intro only_open only_chunked[OF chunk_sizes_simps(2)]) (auto intro: origin.intros)

lemma origin_platform:
  "only_emits (from_origin E m ps out eng) (combine_platform E m ps out eng)"
proof -
  consider "m = ''AZFP''" | "m = ''EK80'' \<or> m = ''EA640''" | "m = ''EK60''"
    | "m \<notin> {''AZFP'', ''EK80'', ''EA640'', ''EK60''}" by auto
  then show ?thesis
  proof cases
    case 1
    then show ?thesis unfolding combine_platform_def
      by (simp, intro only_open only_save) (auto intro: origin.intros)
  next
    case 2
    then have "combine_platform E m ps out eng = open_step E ps
          (no_kwargs\<lparr>kw_group := Some ''Platform'',
                     kw_concat_dim := Some (Dims [''location_time'', ''mru_time'']),
                     kw_data_vars := Some ''minimal'', kw_engine := Some eng\<rparr>)
          (\<lambda>ds_plat.
             chunked_save E [(''location_time'', ''ping_time''), (''mru_time'', ''ping_time'')]
               (\<lambda>ds. ds) ds_plat out eng ''Platform'')"
      by (auto simp: combine_platform_def)
    moreover have "only_emits (from_origin E m ps out eng) \<dots>"
      using 2 by (intro only_open only_chunked[OF chunk_sizes_simps(3)]) (auto intro: origin.intros)
    ultimately show ?thesis by simp
  next
    case 3
    then have "combine_platform E m ps out eng = open_step E ps
          (no_kwargs\<lparr>kw_group := Some ''Platform'',
                     kw_concat_dim := Some (Dims [''location_time'', ''ping_time'']),
                     kw_data_vars := Some ''minimal'', kw_engine := Some eng\<rparr>)
          (\<lambda>ds_plat.
             chunked_save E [(''location_time'', ''ping_time''), (''ping_time'', ''ping_time'')]
               (\<lambda>ds. ds) ds_plat out eng ''Platform'')"
      by (simp add: combine_platform_def)
    moreover have "only_emits (from_origin E m ps out eng) \<dots>"
      using 3 by (intro only_open only_chunked[OF chunk_sizes_simps(4)]) (auto intro: origin.intros)
    ultimately show ?thesis by simp
  next
    case 4
    then show ?thesis by (simp add: combine_platform_def only_skip)
  qed
qed

lemma origin_nmea: "only_emits (from_origin E m ps out eng) (combine_nmea E m ps out eng)"
proof (cases "m = ''EK60'' \<or> m = ''EK80'' \<or> m = ''EA640''")
  case True
  then have "combine_nmea E m ps out eng = open_step E ps
          (no_kwargs\<lparr>kw_group := Some ''Platform/NMEA'',
                     kw_concat_dim := Some (Dim ''location_time''),
                     kw_data_vars := Some ''minimal'', kw_engine := Some eng\<rparr>)
          (\<lambda>ds_nmea.
             chunked_save E [(''location_time'', ''ping_time'')] astype_str ds_nmea out
               eng ''Platform/NMEA'')"
    by (auto simp: combine_nmea_def)
  moreover have "only_emits (from_origin E m ps out eng) \<dots>"
    using True by (intro only_open only_chunked[OF chunk_sizes_simps(5)]) (auto intro: origin.intros)
  ultimately show ?thesis by simp
next
  case False
  then show ?thesis by (simp add: combine_nmea_def only_skip)
qed

lemma origin_vendor: "only_emits (from_origin E m ps out eng) (combine_vendor E ps out eng)"
  unfolding combine_vendor_def
  by (intro only_open only_save) (auto intro: origin.intros)

lemma saved_origin:
  assumes "Saved w \<in> set (fst (perform_combination E m ps out eng))"
  shows "origin E m ps out eng w"
proof -
  have "only_emits (from_origin E m ps out eng)
     (then_step (combine_toplevel E ps out eng)
     (then_step (combine_sonar E ps out eng)
     (then_step (combine_provenance E ps out eng)
     (then_step (combine_beam E m ps out eng)
     (then_step (combine_environment E ps out eng)
     (then_step (combine_platform E m ps out eng)
     (then_step (combine_nmea E m ps out eng)
                (combine_vendor E ps out eng))))))))"
    by (intro only_then origin_toplevel origin_sonar origin_provenance origin_beam
        origin_environment origin_platform origin_nmea origin_vendor)
  from only_run[OF this, of "Saved w"] assms show ?thesis
    by (simp add: perform_combination_def)
qed

section \<open>Chunk sizes and text fields of the saved groups\<close>

lemma beam_save_EK60_in_run:
  "Saved beam_save_EK60 \<in>
     set (fst (perform_combination E_ok ''EK60'' [''a.nc'', ''b.nc''] ''out.nc'' ''netcdf4''))"
  by (simp add: run_EK60 beam_save_EK60_def)

lemma map_of_chunk2:
  "map_of (chunks (chunk [(k1, n1), (k2, n2)] ds)) k =
     (if k = k2 then Some n2 else if k = k1 then Some n1 else map_of (chunks ds) k)"
  by (simp add: chunk_def update_conv)

lemma map_of_chunk1:
  "map_of (chunks (chunk [(k1, n1)] ds)) k = (if k = k1 then Some n1 else map_of (chunks ds) k)"
  by (simp add: chunk_def update_conv)

text \<open>
  C3 (as amended). In a combine call the chunk sizes come from a table of two entries,
  \<open>range_bin\<close> 25000 and \<open>ping_time\<close> 2500, and the \<open>ping_time\<close> entry is used for
  every time dimension: the Beam group is saved with \<open>range_bin\<close> 25000 and
  \<open>ping_time\<close> 2500, the Environment group with \<open>ping_time\<close> 2500, the Platform group
  of EK80 and EA640 with \<open>location_time\<close> and \<open>mru_time\<close> 2500, the Platform group of
  EK60 with \<open>location_time\<close> and \<open>ping_time\<close> 2500, the Platform/NMEA group with
  \<open>location_time\<close> 2500. The Platform group of AZFP and the Vendor group are saved as
  they were opened, with no chunk size assigned.
\<close>

theorem combine_chunk_sizes:
  assumes "Saved w \<in> set (fst (perform_combination E sonar_model input_paths output_path engine))"
  shows "(w_group w = Some ''Beam'' \<longrightarrow>
            map_of (chunks (w_ds w)) ''range_bin'' = Some 25000 \<and>
            map_of (chunks (w_ds w)) ''ping_time'' = Some 2500)
       \<and> (w_group w = Some ''Environment'' \<longrightarrow>
            map_of (chunks (w_ds w)) ''ping_time'' = Some 2500)
       \<and> (w_group w = Some ''Platform'' \<and> (sonar_model = ''EK80'' \<or> sonar_model = ''EA640'') \<longrightarrow>
            map_of (chunks (w_ds w)) ''location_time'' = Some 2500 \<and>
            map_of (chunks (w_ds w)) ''mru_time'' = Some 2500)
       \<and> (w_group w = Some ''Platform'' \<and> sonar_model = ''EK60'' \<longrightarrow>
            map_of (chunks (w_ds w)) ''location_time'' = Some 2500 \<and>
            map_of (chunks (w_ds w)) ''ping_time'' = Some 2500)
       \<and> (w_group w = Some ''Platform/NMEA'' \<longrightarrow>
            map_of (chunks (w_ds w)) ''location_time'' = Some 2500)
       \<and> (w_group w = Some ''Platform'' \<and> sonar_model = ''AZFP'' \<longrightarrow>
            open_mfdataset E (PList input_paths)
              (no_kwargs\<lparr>kw_group := Some ''Platform'', kw_combine := Some ''nested'',
                 kw_compat := Some ''identical'', kw_engine := Some engine\<rparr>) = Inr (w_ds w))
       \<and> (w_group w = Some ''Vendor'' \<longrightarrow>
            open_mfdataset E (PList input_paths)
              (no_kwargs\<lparr>kw_group := Some ''Vendor'', kw_combine := Some ''nested'',
                 kw_compat := Some ''no_conflicts'', kw_data_vars := Some ''minimal'',
                 kw_engine := Some engine\<rparr>) = Inr (w_ds w))"
  using saved_origin[OF assms]
  by (cases rule: origin.cases) (auto simp: map_of_chunk1 map_of_chunk2 astype_str_def)

theorem combine_chunk_sizes_witness:
  "map_of (chunks (w_ds beam_save_EK60)) ''range_bin'' = Some 25000 \<and>
   map_of (chunks (w_ds beam_save_EK60)) ''ping_time'' = Some 2500"
  using combine_chunk_sizes[OF beam_save_EK60_in_run]
  by (simp add: beam_save_EK60_def)

text \<open>
  On two EK60 files the Beam group is saved with \<open>ping_time\<close> 2500 and the Platform
  group with \<open>location_time\<close> 2500, where the claim has 100 for both.
\<close>

theorem combine_chunk_sizes_counterexample:
  "map chunks (saved_under
       (fst (perform_combination E_ok ''EK60'' [''a.nc'', ''b.nc''] ''out.nc'' ''netcdf4'')) ''Beam'')
     \<noteq> [[(''range_bin'', 25000), (''ping_time'', 100)]]
   \<and> map chunks (saved_under
       (fst (perform_combination E_ok ''EK60'' [''a.nc'', ''b.nc''] ''out.nc'' ''netcdf4'')) ''Beam'')
     = [[(''range_bin'', 25000), (''ping_time'', 2500)]]
   \<and> map chunks (saved_under
       (fst (perform_combination E_ok ''EK60'' [''a.nc'', ''b.nc''] ''out.nc'' ''netcdf4'')) ''Platform'')
     = [[(''location_time'', 2500), (''ping_time'', 2500)]]"
  by (simp add: run_EK60 saved_under_def is_group_def)

lemma coerce_type_EK60:
  assumes "coerce_type ''EK60'' ds ''Beam'' = Inr ds'"
  shows "\<exists>v c. map_of (data_vars ds) ''gpt_software_version'' = Some v \<and>
           map_of (data_vars ds) ''channel_id'' = Some c \<and>
           ds' = ds\<lparr>data_vars := AList.update ''channel_id'' (map (take 50) c)
                   (AList.update ''gpt_software_version'' (map (take 10) v) (data_vars ds))\<rparr>"
  using assms
  by (auto simp: coerce_type_def exn_bind_def getitem_def setitem_def astype_U_def update_conv
      split: option.splits)

lemma coerce_type_EK80:
  assumes "coerce_type ''EK80'' ds ''Beam'' = Inr ds'"
  shows "\<exists>v c. map_of (data_vars ds) ''transceiver_software_version'' = Some v \<and>
           map_of (data_vars ds) ''channel_id'' = Some c \<and>
           ds' = ds\<lparr>data_vars := AList.update ''channel_id'' (map (take 50) c)
                   (AList.update ''transceiver_software_version'' (map (take 10) v) (data_vars ds))\<rparr>"
  using assms
  by (auto simp: coerce_type_def exn_bind_def getitem_def setitem_def astype_U_def update_conv
      split: option.splits)

lemma data_vars_chunk [simp]: "data_vars (chunk c ds) = data_vars ds"
  by (simp add: chunk_def)

text \<open>
  C2 (as amended). The Beam group a combine call saves is the Beam group it opened with
  two text fields cut to a fixed width, for two models: for EK60,
  \<open>gpt_software_version\<close> to 10 characters and \<open>channel_id\<close> to 50; for EK80,
  \<open>transceiver_software_version\<close> to 10 characters and \<open>channel_id\<close> to 50. For
  every other model, EA640 among them, the variables are saved as they were opened.
\<close>

theorem beam_text_coercion:
  assumes "Saved w \<in> set (fst (perform_combination E sonar_model input_paths output_path engine))"
    and "w_group w = Some ''Beam''"
  shows "\<exists>ds. open_mfdataset E (PList input_paths)
            (no_kwargs\<lparr>kw_group := Some ''Beam'', kw_concat_dim := Some (Dim ''ping_time''),
               kw_data_vars := Some ''minimal'', kw_engine := Some engine\<rparr>) = Inr ds \<and>
         (sonar_model = ''EK60'' \<longrightarrow>
            (\<exists>v c. map_of (data_vars ds) ''gpt_software_version'' = Some v \<and>
               map_of (data_vars ds) ''channel_id'' = Some c \<and>
               map_of (data_vars (w_ds w)) ''gpt_software_version'' = Some (map (take 10) v) \<and>
               map_of (data_vars (w_ds w)) ''channel_id'' = Some (map (take 50) c) \<and>
               data_vars (w_ds w) = AList.update ''channel_id'' (map (take 50) c)
                 (AList.update ''gpt_software_version'' (map (take 10) v) (data_vars ds)))) \<and>
         (sonar_model = ''EK80'' \<longrightarrow>
            (\<exists>v c. map_of (data_vars ds) ''transceiver_software_version'' = Some v \<and>
               map_of (data_vars ds) ''channel_id'' = Some c \<and>
               map_of (data_vars (w_ds w)) ''transceiver_software_version'' = Some (map (take 10) v) \<and>
               map_of (data_vars (w_ds w)) ''channel_id'' = Some (map (take 50) c) \<and>
               data_vars (w_ds w) = AList.update ''channel_id'' (map (take 50) c)
                 (AList.update ''transceiver_software_version'' (map (take 10) v) (data_vars ds)))) \<and>
         (sonar_model \<noteq> ''EK60'' \<and> sonar_model \<noteq> ''EK80'' \<longrightarrow> data_vars (w_ds w) = data_vars ds)"
  using saved_origin[OF assms(1)] assms(2)
proof (cases rule: origin.cases)
  case (o_beam ds ds')
  have ek60: "\<exists>v c. map_of (data_vars ds) ''gpt_software_version'' = Some v \<and>
               map_of (data_vars ds) ''channel_id'' = Some c \<and>
               map_of (data_vars (w_ds w)) ''gpt_software_version'' = Some (map (take 10) v) \<and>
               map_of (data_vars (w_ds w)) ''channel_id'' = Some (map (take 50) c) \<and>
               data_vars (w_ds w) = AList.update ''channel_id'' (map (take 50) c)
                 (AList.update ''gpt_software_version'' (map (take 10) v) (data_vars ds))"
    if "sonar_model = ''EK60''"
  proof -
    from o_beam(3) that obtain v c where
      vc: "map_of (data_vars ds) ''gpt_software_version'' = Some v"
        "map_of (data_vars ds) ''channel_id'' = Some c"
        "ds' = ds\<lparr>data_vars := AList.update ''channel_id'' (map (take 50) c)
                   (AList.update ''gpt_software_version'' (map (take 10) v) (data_vars ds))\<rparr>"
      using coerce_type_EK60 by blast
    show ?thesis
      by (intro exI[of _ v] exI[of _ c]) (simp add: vc o_beam(1) update_conv)
  qed
  have ek80: "\<exists>v c. map_of (data_vars ds) ''transceiver_software_version'' = Some v \<and>
               map_of (data_vars ds) ''channel_id'' = Some c \<and>
               map_of (data_vars (w_ds w)) ''transceiver_software_version'' = Some (map (take 10) v) \<and>
               map_of (data_vars (w_ds w)) ''channel_id'' = Some (map (take 50) c) \<and>
               data_vars (w_ds w) = AList.update ''channel_id'' (map (take 50) c)
                 (AList.update ''transceiver_software_version'' (map (take 10) v) (data_vars ds))"
    if "sonar_model = ''EK80''"
  proof -
    from o_beam(3) that obtain v c where
      vc: "map_of (data_vars ds) ''transceiver_software_version'' = Some v"
        "map_of (data_vars ds) ''channel_id'' = Some c"
        "ds' = ds\<lparr>data_vars := AList.update ''channel_id'' (map (take 50) c)
                   (AList.update ''transceiver_software_version'' (map (take 10) v) (data_vars ds))\<rparr>"
      using coerce_type_EK80 by blast
    show ?thesis
      by (intro exI[of _ v] exI[of _ c]) (simp add: vc o_beam(1) update_conv)
  qed
  have other: "data_vars (w_ds w) = data_vars ds"
    if "sonar_model \<noteq> ''EK60'' \<and> sonar_model \<noteq> ''EK80''"
    using o_beam(1,3) that by (simp add: coerce_type_other)
  from o_beam(2) ek60 ek80 other show ?thesis by blast
qed simp_all

theorem beam_text_coercion_witness:
  "\<exists>ds. open_mfdataset E_ok (PList [''a.nc'', ''b.nc''])
            (no_kwargs\<lparr>kw_group := Some ''Beam'', kw_concat_dim := Some (Dim ''ping_time''),
               kw_data_vars := Some ''minimal'', kw_engine := Some ''netcdf4''\<rparr>) = Inr ds \<and>
     (\<exists>v c. map_of (data_vars ds) ''gpt_software_version'' = Some v \<and>
        map_of (data_vars ds) ''channel_id'' = Some c \<and>
        map_of (data_vars (w_ds beam_save_EK60)) ''gpt_software_version'' = Some (map (take 10) v) \<and>
        map_of (data_vars (w_ds beam_save_EK60)) ''channel_id'' = Some (map (take 50) c) \<and>
        data_vars (w_ds beam_save_EK60) = AList.update ''channel_id'' (map (take 50) c)
          (AList.update ''gpt_software_version'' (map (take 10) v) (data_vars ds)))"
proof -
  have g: "w_group beam_save_EK60 = Some ''Beam''" by (simp add: beam_save_EK60_def)
  show ?thesis using beam_text_coercion[OF beam_save_EK60_in_run g] by simp
qed

text \<open>
  On two EK80 files the Beam variables saved are not the ones opened: the software
  version and the second channel identifier were cut.
\<close>

theorem beam_text_coercion_counterexample:
  "map data_vars (saved_under
     (fst (perform_combination E_ok ''EK80'' [''a.nc'', ''b.nc''] ''out.nc'' ''netcdf4'')) ''Beam'')
   = [[(''gpt_software_version'', [''070413'', ''070413-build-2219'']),
       (''transceiver_software_version'', [''2.46.1-bui'']),
       (''channel_id'', [''GPT  38 kHz 009072058c8d 1-1 ES38B'',
          ''WBT 545612-15 ES120-7C serial 0123456789 extra lon''])]]
   \<and> map data_vars (saved_under
     (fst (perform_combination E_ok ''EK80'' [''a.nc'', ''b.nc''] ''out.nc'' ''netcdf4'')) ''Beam'')
   \<noteq> [data_vars ds_a]"
  by (simp add: perform_combination_def step_defs chunk_sizes_simps E_ok_def coerce_type_def
      exn_bind_def getitem_def ds_a_def setitem_def chunk_def astype_U_def astype_str_def
      no_kwargs_def saved_under_def is_group_def)

section \<open>The provenance group\<close>

lemma digit_nth: "n < 10 \<Longrightarrow> ''0123456789'' ! n \<in> digit_chars"
  unfolding digit_chars_def by (rule nth_mem) simp

lemma dec_digits: "set (dec n) \<subseteq> digit_chars"
proof (induction n rule: dec.induct)
  case (1 n)
  show ?case
  proof (cases "n < 10")
    case True
    then have "dec n = [''0123456789'' ! n]" by (subst dec.simps) simp
    with digit_nth[OF True] show ?thesis by simp
  next
    case False
    then have eq: "dec n = dec (n div 10) @ [''0123456789'' ! (n mod 10)]"
      by (subst dec.simps) simp
    have "''0123456789'' ! (n mod 10) \<in> digit_chars" by (rule digit_nth) simp
    with 1[OF False] eq show ?thesis by simp
  qed
qed

lemma length_dec: "0 < k \<Longrightarrow> n < 10 ^ k \<Longrightarrow> length (dec n) \<le> k"
proof (induction k arbitrary: n)
  case 0
  then show ?case by simp
next
  case (Suc k)
  show ?case
  proof (cases "n < 10")
    case True
    then have "dec n = [''0123456789'' ! n]" by (subst dec.simps) simp
    then show ?thesis by simp
  next
    case False
    then have eq: "dec n = dec (n div 10) @ [''0123456789'' ! (n mod 10)]"
      by (subst dec.simps) simp
    from False Suc.prems(2) have k: "0 < k" by (cases k) auto
    from Suc.prems(2) have "n div 10 < 10 ^ k" by (simp add: less_mult_imp_div_less mult.commute)
    from Suc.IH[OF k this] eq show ?thesis by simp
  qed
qed

lemma zfill_length: "length s \<le> w \<Longrightarrow> length (zfill w s) = w"
  by (simp add: zfill_def)

lemma zero_digit: "CHR ''0'' \<in> digit_chars"
  by (simp add: digit_chars_def)

lemma zfill_digits: "set s \<subseteq> digit_chars \<Longrightarrow> set (zfill w s) \<subseteq> digit_chars"
  using zero_digit by (auto simp: zfill_def)

lemma two_digits:
  assumes "n < 100"
  shows "\<exists>a b. a \<in> digit_chars \<and> b \<in> digit_chars \<and> zfill 2 (dec n) = [a, b]"
proof -
  have "length (dec n) \<le> 2" using length_dec[of 2 n] assms by simp
  then have len: "length (zfill 2 (dec n)) = 2" by (rule zfill_length)
  then obtain a b where ab: "zfill 2 (dec n) = [a, b]"
    by (auto simp: length_Suc_conv numeral_2_eq_2)
  from zfill_digits[OF dec_digits, of 2 n] ab show ?thesis by auto
qed

lemma four_digits:
  assumes "n < 10000"
  shows "\<exists>a b c d. a \<in> digit_chars \<and> b \<in> digit_chars \<and>
           c \<in> digit_chars \<and> d \<in> digit_chars \<and> zfill 4 (dec n) = [a, b, c, d]"
proof -
  have "length (dec n) \<le> 4" using length_dec[of 4 n] assms by simp
  then have len: "length (zfill 4 (dec n)) = Suc (Suc (Suc (Suc 0)))"
    using zfill_length[of "dec n" 4] by simp
  then obtain a b c d where abcd: "zfill 4 (dec n) = [a, b, c, d]"
    by (auto simp: length_Suc_conv)
  from zfill_digits[OF dec_digits, of 4 n] abcd show ?thesis by auto
qed

lemma utcnow_E_ok_fields:
  "year (utcnow E_ok) \<le> 9999 \<and> month (utcnow E_ok) \<le> 12 \<and> day (utcnow E_ok) \<le> 31 \<and>
   hour (utcnow E_ok) \<le> 23 \<and> minute (utcnow E_ok) \<le> 59 \<and> second (utcnow E_ok) \<le> 59"
  by (simp add: E_ok_def)

lemma takeWhile_neq_nth:
  assumes "distinct xs" and "n < length xs"
  shows "length (takeWhile (\<lambda>x. x \<noteq> xs ! n) xs) = n"
proof -
  have "takeWhile (\<lambda>x. x \<noteq> xs ! n) xs = take n xs"
  proof (rule takeWhile_eq_take_P_nth)
    fix i assume "i < n" "i < length xs"
    with assms show "xs ! i \<noteq> xs ! n" by (simp add: nth_eq_iff_index_eq)
  qed simp
  with assms(2) show ?thesis by simp
qed

lemma digit_val_nth:
  assumes "n < 10"
  shows "digit_val (''0123456789'' ! n) = n"
  unfolding digit_val_def using assms by (intro takeWhile_neq_nth) simp_all

lemma undec_snoc: "undec (s @ [c]) = 10 * undec s + digit_val c"
  by (simp add: undec_def)

lemma undec_dec: "undec (dec n) = n"
proof (induction n rule: dec.induct)
  case (1 n)
  show ?case
  proof (cases "n < 10")
    case True
    then have "dec n = [''0123456789'' ! n]" by (subst dec.simps) simp
    with digit_val_nth[OF True] show ?thesis by (simp add: undec_def)
  next
    case False
    then have eq: "dec n = dec (n div 10) @ [''0123456789'' ! (n mod 10)]"
      by (subst dec.simps) simp
    have "digit_val (''0123456789'' ! (n mod 10)) = n mod 10" by (rule digit_val_nth) simp
    with 1[OF False] eq show ?thesis by (simp add: undec_snoc)
  qed
qed

lemma undec_zeros: "foldl (\<lambda>a c. 10 * a + digit_val c) 0 (replicate k CHR ''0'') = 0"
  by (induction k) (simp_all add: digit_val_def)

lemma undec_zfill: "undec (zfill w s) = undec s"
  by (simp add: undec_def zfill_def undec_zeros)

lemma two_digits_val:
  assumes "n < 100"
  shows "\<exists>a b. a \<in> digit_chars \<and> b \<in> digit_chars \<and> zfill 2 (dec n) = [a, b] \<and>
           undec [a, b] = n"
proof -
  from two_digits[OF assms] obtain a b where
    ab: "a \<in> digit_chars" "b \<in> digit_chars" "zfill 2 (dec n) = [a, b]" by blast
  have "undec (zfill 2 (dec n)) = n" by (simp add: undec_zfill undec_dec)
  with ab show ?thesis by auto
qed

lemma four_digits_val:
  assumes "n < 10000"
  shows "\<exists>a b c d. a \<in> digit_chars \<and> b \<in> digit_chars \<and> c \<in> digit_chars \<and>
           d \<in> digit_chars \<and> zfill 4 (dec n) = [a, b, c, d] \<and> undec [a, b, c, d] = n"
proof -
  from four_digits[OF assms] obtain a b c d where
    abcd: "a \<in> digit_chars" "b \<in> digit_chars" "c \<in> digit_chars" "d \<in> digit_chars"
      "zfill 4 (dec n) = [a, b, c, d]" by blast
  have "undec (zfill 4 (dec n)) = n" by (simp add: undec_zfill undec_dec)
  with abcd show ?thesis by auto
qed

lemma isoformat_E_ok: "isoformat_seconds (utcnow E_ok) = ''2021-03-09T07:05:42''"
  by (simp add: isoformat_seconds_def E_ok_def zfill_def dec.simps)

text \<open>
  C5. For every list of source paths the provenance group is built without an error
  branch, and its attributes are exactly four: the tool name \<open>echopype\<close>, the version
  string, the UTC time of the call, and the list of source paths as it was passed. It has
  no variables. The time is the reading of the UTC clock written to the second and
  followed by the marker \<open>Z\<close>: it has the form \<open>YYYY-MM-DDTHH:MM:SSZ\<close>, and its
  digits read back as the year, month, day, hour, minute and second of the clock, the
  microseconds being dropped. This is stated for the field ranges a Python datetime has.
\<close>

theorem provenance_group:
  "attrs (assemble_combined_provenance E input_paths) =
     [(''conversion_software_name'', AStr ''echopype''),
      (''conversion_software_version'', AStr (ECHOPYPE_VERSION E)),
      (''conversion_time'', AStr (isoformat_seconds (utcnow E) @ ''Z'')),
      (''src_filenames'', APaths input_paths)]
   \<and> data_vars (assemble_combined_provenance E input_paths) = []
   \<and> (year (utcnow E) \<le> 9999 \<and> month (utcnow E) \<le> 12 \<and> day (utcnow E) \<le> 31 \<and>
      hour (utcnow E) \<le> 23 \<and> minute (utcnow E) \<le> 59 \<and> second (utcnow E) \<le> 59 \<longrightarrow>
      (\<exists>y1 y2 y3 y4 m1 m2 d1 d2 h1 h2 n1 n2 s1 s2.
         set [y1, y2, y3, y4, m1, m2, d1, d2, h1, h2, n1, n2, s1, s2] \<subseteq> digit_chars \<and>
         isoformat_seconds (utcnow E) @ ''Z'' =
           [y1, y2, y3, y4, CHR ''-'', m1, m2, CHR ''-'', d1, d2, CHR ''T'',
            h1, h2, CHR '':'', n1, n2, CHR '':'', s1, s2, CHR ''Z''] \<and>
         undec [y1, y2, y3, y4] = year (utcnow E) \<and> undec [m1, m2] = month (utcnow E) \<and>
         undec [d1, d2] = day (utcnow E) \<and> undec [h1, h2] = hour (utcnow E) \<and>
         undec [n1, n2] = minute (utcnow E) \<and> undec [s1, s2] = second (utcnow E)))"
proof -
  have a: "attrs (assemble_combined_provenance E input_paths) =
     [(''conversion_software_name'', AStr ''echopype''),
      (''conversion_software_version'', AStr (ECHOPYPE_VERSION E)),
      (''conversion_time'', AStr (isoformat_seconds (utcnow E) @ ''Z'')),
      (''src_filenames'', APaths input_paths)]"
    by (simp add: assemble_combined_provenance_def assign_attrs_def Dataset_def)
  have b: "data_vars (assemble_combined_provenance E input_paths) = []"
    by (simp add: assemble_combined_provenance_def assign_attrs_def Dataset_def)
  have c: "\<exists>y1 y2 y3 y4 m1 m2 d1 d2 h1 h2 n1 n2 s1 s2.
         set [y1, y2, y3, y4, m1, m2, d1, d2, h1, h2, n1, n2, s1, s2] \<subseteq> digit_chars \<and>
         isoformat_seconds (utcnow E) @ ''Z'' =
           [y1, y2, y3, y4, CHR ''-'', m1, m2, CHR ''-'', d1, d2, CHR ''T'',
            h1, h2, CHR '':'', n1, n2, CHR '':'', s1, s2, CHR ''Z''] \<and>
         undec [y1, y2, y3, y4] = year (utcnow E) \<and> undec [m1, m2] = month (utcnow E) \<and>
         undec [d1, d2] = day (utcnow E) \<and> undec [h1, h2] = hour (utcnow E) \<and>
         undec [n1, n2] = minute (utcnow E) \<and> undec [s1, s2] = second (utcnow E)"
    if r: "year (utcnow E) \<le> 9999" "month (utcnow E) \<le> 12" "day (utcnow E) \<le> 31"
      "hour (utcnow E) \<le> 23" "minute (utcnow E) \<le> 59" "second (utcnow E) \<le> 59"
  proof -
    obtain y1 y2 y3 y4 where y: "y1 \<in> digit_chars" "y2 \<in> digit_chars"
      "y3 \<in> digit_chars" "y4 \<in> digit_chars"
      "zfill 4 (dec (year (utcnow E))) = [y1, y2, y3, y4]"
      "undec [y1, y2, y3, y4] = year (utcnow E)"
      using four_digits_val[of "year (utcnow E)"] r(1) by auto
    obtain m1 m2 where m: "m1 \<in> digit_chars" "m2 \<in> digit_chars"
      "zfill 2 (dec (month (utcnow E))) = [m1, m2]" "undec [m1, m2] = month (utcnow E)"
      using two_digits_val[of "month (utcnow E)"] r(2) by auto
    obtain d1 d2 where d: "d1 \<in> digit_chars" "d2 \<in> digit_chars"
      "zfill 2 (dec (day (utcnow E))) = [d1, d2]" "undec [d1, d2] = day (utcnow E)"
      using two_digits_val[of "day (utcnow E)"] r(3) by auto
    obtain h1 h2 where h: "h1 \<in> digit_chars" "h2 \<in> digit_chars"
      "zfill 2 (dec (hour (utcnow E))) = [h1, h2]" "undec [h1, h2] = hour (utcnow E)"
      using two_digits_val[of "hour (utcnow E)"] r(4) by auto
    obtain n1 n2 where n: "n1 \<in> digit_chars" "n2 \<in> digit_chars"
      "zfill 2 (dec (minute (utcnow E))) = [n1, n2]" "undec [n1, n2] = minute (utcnow E)"
      using two_digits_val[of "minute (utcnow E)"] r(5) by auto
    obtain s1 s2 where s: "s1 \<in> digit_chars" "s2 \<in> digit_chars"
      "zfill 2 (dec (second (utcnow E))) = [s1, s2]" "undec [s1, s2] = second (utcnow E)"
      using two_digits_val[of "second (utcnow E)"] r(6) by auto
    have eq: "isoformat_seconds (utcnow E) @ ''Z'' =
           [y1, y2, y3, y4, CHR ''-'', m1, m2, CHR ''-'', d1, d2, CHR ''T'',
            h1, h2, CHR '':'', n1, n2, CHR '':'', s1, s2, CHR ''Z'']"
      by (simp add: isoformat_seconds_def y(5) m(3) d(3) h(3) n(3) s(3))
    have sub: "set [y1, y2, y3, y4, m1, m2, d1, d2, h1, h2, n1, n2, s1, s2] \<subseteq> digit_chars"
      using y(1-4) m(1,2) d(1,2) h(1,2) n(1,2) s(1,2) by simp
    from eq sub y(6) m(4) d(4) h(4) n(4) s(4) show ?thesis by blast
  qed
  from a b c show ?thesis by blast
qed

theorem provenance_group_witness:
  "attrs (assemble_combined_provenance E_ok [''a.nc'', ''b.nc'']) =
     [(''conversion_software_name'', AStr ''echopype''),
      (''conversion_software_version'', AStr ''0.5.0''),
      (''conversion_time'', AStr ''2021-03-09T07:05:42Z''),
      (''src_filenames'', APaths [''a.nc'', ''b.nc''])]
   \<and> (\<exists>y1 y2 y3 y4 m1 m2 d1 d2 h1 h2 n1 n2 s1 s2.
         set [y1, y2, y3, y4, m1, m2, d1, d2, h1, h2, n1, n2, s1, s2] \<subseteq> digit_chars \<and>
         ''2021-03-09T07:05:42Z'' =
           [y1, y2, y3, y4, CHR ''-'', m1, m2, CHR ''-'', d1, d2, CHR ''T'',
            h1, h2, CHR '':'', n1, n2, CHR '':'', s1, s2, CHR ''Z''] \<and>
         undec [y1, y2, y3, y4] = 2021 \<and> undec [m1, m2] = 3 \<and> undec [d1, d2] = 9 \<and>
         undec [h1, h2] = 7 \<and> undec [n1, n2] = 5 \<and> undec [s1, s2] = 42)"
proof -
  have v: "ECHOPYPE_VERSION E_ok = ''0.5.0''" "year (utcnow E_ok) = 2021"
    "month (utcnow E_ok) = 3" "day (utcnow E_ok) = 9" "hour (utcnow E_ok) = 7"
    "minute (utcnow E_ok) = 5" "second (utcnow E_ok) = 42"
    by (simp_all add: E_ok_def)
  have i: "isoformat_seconds (utcnow E_ok) @ ''Z'' = ''2021-03-09T07:05:42Z''"
    by (simp add: isoformat_E_ok)
  show ?thesis
    using provenance_group[of E_ok "[''a.nc'', ''b.nc'']"] utcnow_E_ok_fields
    unfolding v i by blast
qed

section \<open>Reading a pointer that is not set\<close>

text \<open>
  C8. Reading \<open>Sv\<close>, \<open>Sv_clean\<close>, \<open>TS\<close> or \<open>MVBS\<close> while its pointer is unset
  returns \<open>None\<close> and prints the line that the data has not been calibrated. The
  getters have no error branch: they return a value and the lines printed.
\<close>

theorem unset_pointer_signal:
  "(priv_Sv ed = None \<longrightarrow> Sv ed = (None, [not_calibrated]))
   \<and> (priv_Sv_clean ed = None \<longrightarrow> Sv_clean ed = (None, [not_calibrated]))
   \<and> (priv_TS ed = None \<longrightarrow> TS ed = (None, [not_calibrated]))
   \<and> (priv_MVBS ed = None \<longrightarrow> MVBS ed = (None, [not_calibrated]))"
  by (simp add: Sv_def Sv_clean_def TS_def MVBS_def)

theorem unset_pointer_signal_witness:
  "Sv blank = (None, [not_calibrated]) \<and> Sv_clean blank = (None, [not_calibrated]) \<and>
   TS blank = (None, [not_calibrated]) \<and> MVBS blank = (None, [not_calibrated])"
  using unset_pointer_signal[of blank] by (simp add: blank_def)

section \<open>Path resolution\<close>

lemma splitext_loop_parts: "fst (splitext_loop p i d) @ snd (splitext_loop p i d) = p"
proof (induction p i d rule: splitext_loop.induct)
  case (1 p filenameIndex dotIndex)
  show ?case
  proof (cases "filenameIndex < dotIndex")
    case True
    show ?thesis
    proof (cases "p ! filenameIndex \<noteq> CHR ''.''")
      case True
      with \<open>filenameIndex < dotIndex\<close> show ?thesis by (subst (1 2) splitext_loop.simps) simp
    next
      case False
      with \<open>filenameIndex < dotIndex\<close> 1 show ?thesis by (subst (1 2) splitext_loop.simps) simp
    qed
  next
    case False
    then show ?thesis by (subst (1 2) splitext_loop.simps) simp
  qed
qed

lemma splitext_parts: "fst (splitext p) @ snd (splitext p) = p"
  by (simp add: splitext_def Let_def splitext_loop_parts)

lemma splitext_endswith: "endswith p (snd (splitext p))"
proof -
  have "length (fst (splitext p)) + length (snd (splitext p)) = length p"
    using splitext_parts[of p] by (metis length_append)
  moreover have "drop (length (fst (splitext p))) p = snd (splitext p)"
    using splitext_parts[of p] by (metis append_eq_conv_conj)
  ultimately show ?thesis
    by (simp add: endswith_def) (metis add_diff_cancel_right' le_add2)
qed

lemma get_set_path [simp]: "get_path t (set_path t v self) = v"
  by (cases t) (simp_all add: get_path_def set_path_def)

lemma splitext_dot_nc: "splitext ''.nc'' = (''.nc'', [])"
  by (simp add: splitext_def rfind_def splitext_loop.simps)

lemma splitext_x_nc: "splitext ''x.nc'' = (''x'', ''.nc'')"
  by (simp add: splitext_def rfind_def splitext_loop.simps)

lemma splitext_names:
  "splitext ''b.zarr'' = (''b'', ''.zarr'')" "splitext ''notes.txt'' = (''notes'', ''.txt'')"
  "splitext ''a.zarr'' = (''a'', ''.zarr'')" "splitext ''c.nc'' = (''c'', ''.nc'')"
  by (simp_all add: splitext_def rfind_def splitext_loop.simps)

lemma listing_E_ok: "get_files_from_dir E_ok d = Inr [''a.zarr'', ''b.zarr'', ''c.nc'']"
  by (simp add: get_files_from_dir_def exn_bind_def E_ok_def splitext_names
      less_char_def less_eq_char_def)

text \<open>
  C7 (as amended). What \<open>_update_file_list\<close> does with a path specification is
  decided by the extension \<open>os.path.splitext\<close> finds, which is a suffix of the string:
  with the extension \<open>.nc\<close> or \<open>.zarr\<close> the string itself becomes the path; with no
  extension the string is taken as a directory and the path becomes its listing (the
  children with a container extension, in lexical order, or the error of the listing);
  a list is kept as it is, in the caller's order; every other string and every value
  that is neither a string nor a list is rejected with
  \<open>ValueError('Unsupported file path')\<close>. A name made of dots and an extension, such
  as \<open>.nc\<close>, has no extension for \<open>splitext\<close> and is taken as a directory.
\<close>

theorem update_file_list_resolution:
  "(snd (splitext s) \<in> {''.nc'', ''.zarr''} \<longrightarrow>
      update_file_list E (PStr s) t self = Inr (set_path t (PStr s) self))
   \<and> (snd (splitext s) = [] \<longrightarrow>
      update_file_list E (PStr s) t self =
        (case get_files_from_dir E s of Inl e \<Rightarrow> Inl e
         | Inr fs \<Rightarrow> Inr (set_path t (PList fs) self)))
   \<and> (listdir E s = Inr names \<longrightarrow>
      (\<exists>fs. get_files_from_dir E s = Inr fs \<and> sorted fs \<and>
         set fs = {f \<in> set names. snd (splitext f) \<in> {''.nc'', ''.zarr''}}))
   \<and> update_file_list E (PList l) t self = Inr (set_path t (PList l) self)
   \<and> (snd (splitext s) \<notin> {[], ''.nc'', ''.zarr''} \<longrightarrow>
      update_file_list E (PStr s) t self = Inl (ValueError ''Unsupported file path''))
   \<and> update_file_list E PNone t self = Inl (ValueError ''Unsupported file path'')
   \<and> update_file_list E POther t self = Inl (ValueError ''Unsupported file path'')
   \<and> get_path t (set_path t v self) = v
   \<and> endswith s (snd (splitext s))"
proof -
  have a: "update_file_list E (PStr s) t self = Inr (set_path t (PStr s) self)"
    if "snd (splitext s) \<in> {''.nc'', ''.zarr''}"
    using that by (auto simp: update_file_list_def Let_def)
  have b: "update_file_list E (PStr s) t self =
        (case get_files_from_dir E s of Inl e \<Rightarrow> Inl e
         | Inr fs \<Rightarrow> Inr (set_path t (PList fs) self))"
    if "snd (splitext s) = []"
    using that by (simp add: update_file_list_def Let_def exn_bind_def)
  have c: "\<exists>fs. get_files_from_dir E s = Inr fs \<and> sorted fs \<and>
         set fs = {f \<in> set names. snd (splitext f) \<in> {''.nc'', ''.zarr''}}"
    if "listdir E s = Inr names"
    using that by (auto simp: get_files_from_dir_def exn_bind_def)
  have d: "update_file_list E (PList l) t self = Inr (set_path t (PList l) self)"
    by (simp add: update_file_list_def)
  have e: "update_file_list E (PStr s) t self = Inl (ValueError ''Unsupported file path'')"
    if "snd (splitext s) \<notin> {[], ''.nc'', ''.zarr''}"
    using that by (simp add: update_file_list_def Let_def)
  have f: "update_file_list E PNone t self = Inl (ValueError ''Unsupported file path'')"
    "update_file_list E POther t self = Inl (ValueError ''Unsupported file path'')"
    by (simp_all add: update_file_list_def)
  from a b c d e f splitext_endswith[of s] show ?thesis by simp
qed

theorem update_file_list_resolution_witness:
  "update_file_list E_ok (PStr ''x.nc'') T_Sv blank = Inr (set_path T_Sv (PStr ''x.nc'') blank)
   \<and> (\<exists>fs. get_files_from_dir E_ok ''x.nc'' = Inr fs \<and> sorted fs \<and>
         set fs = {f \<in> set [''b.zarr'', ''notes.txt'', ''a.zarr'', ''c.nc''].
                    snd (splitext f) \<in> {''.nc'', ''.zarr''}})"
proof -
  have h1: "snd (splitext ''x.nc'') \<in> {''.nc'', ''.zarr''}" by (simp add: splitext_x_nc)
  have h2: "listdir E_ok ''x.nc'' = Inr [''b.zarr'', ''notes.txt'', ''a.zarr'', ''c.nc'']"
    by (simp add: E_ok_def)
  show ?thesis
    using update_file_list_resolution[of "''x.nc''" E_ok T_Sv blank
        "[''b.zarr'', ''notes.txt'', ''a.zarr'', ''c.nc'']"] h1 h2
    by blast
qed

text \<open>
  The string \<open>.nc\<close> ends in a recognized extension and yet does not resolve to that
  single file: it is listed as a directory.
\<close>

theorem update_file_list_resolution_counterexample:
  "endswith ''.nc'' ''.nc''
   \<and> update_file_list E_ok (PStr ''.nc'') T_raw blank =
       Inr (set_path T_raw (PList [''a.zarr'', ''b.zarr'', ''c.nc'']) blank)
   \<and> update_file_list E_ok (PStr ''.nc'') T_raw blank \<noteq> Inr (set_path T_raw (PStr ''.nc'') blank)"
  by (simp add: endswith_def update_file_list_def splitext_dot_nc listing_E_ok exn_bind_def
      set_path_def blank_def)

section \<open>Construction of an EchoData object\<close>

lemma raw_path_set_path: "priv_raw_path (set_path t v self) = (if t = T_raw then v else priv_raw_path self)"
  by (cases t) (simp_all add: set_path_def)

lemma raw_path_set_ptr [simp]: "priv_raw_path (set_ptr t v self) = priv_raw_path self"
  by (cases t) (simp_all add: set_ptr_def)

lemma update_file_list_Inr:
  assumes "update_file_list E p t self = Inr self'"
  shows "\<exists>v. self' = set_path t v self \<and>
           ((\<exists>s. p = PStr s \<and> v = PStr s \<and> snd (splitext s) \<in> {''.nc'', ''.zarr''}) \<or>
            (\<exists>s fs. p = PStr s \<and> v = PList fs \<and> snd (splitext s) = []) \<or>
            (\<exists>l. p = PList l \<and> v = PList l))"
proof (cases p)
  case (PStr s)
  show ?thesis
  proof (cases "snd (splitext s) = []")
    case True
    with assms PStr obtain fs where "get_files_from_dir E s = Inr fs" "self' = set_path t (PList fs) self"
      by (auto simp: update_file_list_def Let_def exn_bind_def split: sum.splits)
    with PStr True show ?thesis by blast
  next
    case False
    with assms PStr have "snd (splitext s) \<in> {''.nc'', ''.zarr''}" "self' = set_path t (PStr s) self"
      by (auto simp: update_file_list_def Let_def split: if_splits)
    with PStr show ?thesis by blast
  qed
qed (use assms in \<open>auto simp: update_file_list_def\<close>)

lemma update_data_pointer_other:
  assumes "update_data_pointer E p t self = Inr self'" and "t \<noteq> T_raw"
  shows "priv_raw_path self' = priv_raw_path self"
proof (cases "p = PNone")
  case True
  with assms show ?thesis by (auto simp: update_data_pointer_def raw_path_set_path)
next
  case False
  with assms(1) obtain self1 ds where s1: "update_file_list E p t self = Inr self1"
    "self' = set_ptr t (Some ds) self1"
    by (auto simp: update_data_pointer_def exn_bind_def split: sum.splits)
  from update_file_list_Inr[OF s1(1)] obtain v where "self1 = set_path t v self" by blast
  with s1(2) assms(2) show ?thesis by (simp add: raw_path_set_path)
qed

lemma update_data_pointer_raw:
  assumes "update_data_pointer E p T_raw self = Inr self'"
  shows "(p = PNone \<and> priv_raw_path self' = PNone) \<or>
         (\<exists>s. p = PStr s \<and> priv_raw_path self' = PStr s \<and> snd (splitext s) \<in> {''.nc'', ''.zarr''}) \<or>
         (\<exists>s fs. p = PStr s \<and> priv_raw_path self' = PList fs \<and> snd (splitext s) = []) \<or>
         (\<exists>l. p = PList l \<and> priv_raw_path self' = PList l)"
proof (cases "p = PNone")
  case True
  with assms show ?thesis by (auto simp: update_data_pointer_def raw_path_set_path)
next
  case False
  with assms(1) obtain self1 ds where s1: "update_file_list E p T_raw self = Inr self1"
    "self' = set_ptr T_raw (Some ds) self1"
    by (auto simp: update_data_pointer_def exn_bind_def split: sum.splits)
  from update_file_list_Inr[OF s1(1)] obtain v where v: "self1 = set_path T_raw v self"
    "(\<exists>s. p = PStr s \<and> v = PStr s \<and> snd (splitext s) \<in> {''.nc'', ''.zarr''}) \<or>
     (\<exists>s fs. p = PStr s \<and> v = PList fs \<and> snd (splitext s) = []) \<or>
     (\<exists>l. p = PList l \<and> v = PList l)" by blast
  have "priv_raw_path self' = v" using s1(2) v(1) by (simp add: raw_path_set_path)
  with v(2) show ?thesis by blast
qed

lemma assign_paths_raw:
  assumes "assign_paths E r a b c d = Inr self5"
  shows "\<exists>self1. update_data_pointer E r T_raw blank = Inr self1 \<and>
           priv_raw_path self5 = priv_raw_path self1"
proof -
  from assms obtain self1 self2 self3 self4 where
    s: "update_data_pointer E r T_raw blank = Inr self1"
       "update_data_pointer E a T_Sv self1 = Inr self2"
       "update_data_pointer E b T_Sv_clean self2 = Inr self3"
       "update_data_pointer E c T_TS self3 = Inr self4"
       "update_data_pointer E d T_MVBS self4 = Inr self5"
    by (auto simp: assign_paths_def exn_bind_def split: sum.splits)
  have "priv_raw_path self5 = priv_raw_path self1"
    using update_data_pointer_other[OF s(2)] update_data_pointer_other[OF s(3)]
      update_data_pointer_other[OF s(4)] update_data_pointer_other[OF s(5)] by simp
  with s(1) show ?thesis by blast
qed

lemma set_file_format_Inr:
  assumes "set_file_format self = Inr self'"
  shows "\<exists>s. priv_raw_path self = PStr s \<and> priv_raw_path self' = PStr s"
  using assms by (cases "priv_raw_path self") (auto simp: set_file_format_def split: if_splits)

lemma set_file_format_Inl:
  assumes "\<And>s. priv_raw_path self \<noteq> PStr s"
  shows "set_file_format self = Inl (AttributeError (type_name (priv_raw_path self)) ''endswith'')"
  using assms by (cases "priv_raw_path self") (auto simp: set_file_format_def)

lemma raw_path_handlers [simp]: "priv_raw_path (set_dataset_handlers self) = priv_raw_path self"
  by (simp add: set_dataset_handlers_def)

lemma init_Inr:
  assumes "EchoDataBase_init E r a b c d = Inr ed"
  shows "\<exists>s. r = PStr s \<and> priv_raw_path ed = PStr s \<and> snd (splitext s) \<in> {''.nc'', ''.zarr''}"
proof -
  from assms obtain self5 self7 where
    s: "assign_paths E r a b c d = Inr self5"
       "set_file_format (self5\<lparr>range_attr := None, priv_file_format := None,
          priv_open_dataset := None\<rparr>) = Inr self7"
       "ed = set_dataset_handlers self7"
    by (auto simp: EchoDataBase_init_def exn_bind_def Let_def split: sum.splits)
  from set_file_format_Inr[OF s(2)] obtain s' where
    s': "priv_raw_path self5 = PStr s'" "priv_raw_path self7 = PStr s'" by auto
  from assign_paths_raw[OF s(1)] obtain self1 where
    s1: "update_data_pointer E r T_raw blank = Inr self1" "priv_raw_path self5 = priv_raw_path self1"
    by blast
  from update_data_pointer_raw[OF s1(1)] s1(2) s'(1)
  have "r = PStr s' \<and> snd (splitext s') \<in> {''.nc'', ''.zarr''}" by auto
  with s(3) s'(2) show ?thesis by simp
qed

lemma assign_paths_none: "assign_paths E PNone PNone PNone PNone PNone = Inr blank"
  by (simp add: assign_paths_def update_data_pointer_def exn_bind_def set_path_def set_ptr_def
      blank_def)

lemma init_x_nc: "EchoDataBase_init E_ok (PStr ''x.nc'') PNone PNone PNone PNone = Inr ed_x"
  by (simp add: EchoDataBase_init_def assign_paths_def update_data_pointer_def exn_bind_def
      update_file_list_def splitext_x_nc set_path_def set_ptr_def get_path_def blank_def E_ok_def
      set_file_format_def endswith_def set_dataset_handlers_def ed_x_def)

text \<open>
  C9 (as amended). Constructing an EchoDataBase, or one of its subclasses, which only
  pass their arguments on, completes only when \<open>raw_path\<close> is a string with the
  extension \<open>.nc\<close> or \<open>.zarr\<close>, which then is the resolved raw path. In every other
  construction \<open>__init__\<close> raises: when the five path assignments complete and the
  resolved raw path is not a string (\<open>None\<close>, a list, or the listing of a directory)
  the exception is the \<open>AttributeError\<close> of \<open>_set_file_format\<close>, whose value has no
  \<open>endswith\<close>; when one of the path assignments raises first, the exception is that
  one.
\<close>

theorem init_requires_string_raw_path:
  "(EchoDataBase_init E raw_path Sv_path Sv_clean_path TS_path MVBS_path = Inr ed \<longrightarrow>
      (\<exists>s. raw_path = PStr s \<and> priv_raw_path ed = PStr s \<and>
           snd (splitext s) \<in> {''.nc'', ''.zarr''}))
   \<and> (assign_paths E raw_path Sv_path Sv_clean_path TS_path MVBS_path = Inr self \<and>
        (\<forall>s. priv_raw_path self \<noteq> PStr s) \<longrightarrow>
      EchoDataBase_init E raw_path Sv_path Sv_clean_path TS_path MVBS_path =
        Inl (AttributeError (type_name (priv_raw_path self)) ''endswith''))
   \<and> (assign_paths E raw_path Sv_path Sv_clean_path TS_path MVBS_path = Inl e \<longrightarrow>
      EchoDataBase_init E raw_path Sv_path Sv_clean_path TS_path MVBS_path = Inl e)
   \<and> ((\<forall>s. raw_path \<noteq> PStr s) \<or> (\<exists>s. raw_path = PStr s \<and> snd (splitext s) = []) \<longrightarrow>
      (\<exists>e'. EchoDataBase_init E raw_path Sv_path Sv_clean_path TS_path MVBS_path = Inl e'))
   \<and> EchoDataAZFP_init = EchoDataBase_init \<and> EchoDataEK60_init = EchoDataBase_init
   \<and> EchoDataEK80_init = EchoDataBase_init"
proof -
  let ?init = "EchoDataBase_init E raw_path Sv_path Sv_clean_path TS_path MVBS_path"
  have c1: "\<exists>s. raw_path = PStr s \<and> priv_raw_path ed = PStr s \<and>
      snd (splitext s) \<in> {''.nc'', ''.zarr''}" if "?init = Inr ed"
    using init_Inr[OF that] .
  have c2: "?init = Inl (AttributeError (type_name (priv_raw_path self)) ''endswith'')"
    if "assign_paths E raw_path Sv_path Sv_clean_path TS_path MVBS_path = Inr self"
      and "\<forall>s. priv_raw_path self \<noteq> PStr s"
  proof -
    have "set_file_format (self\<lparr>range_attr := None, priv_file_format := None,
        priv_open_dataset := None\<rparr>) =
      Inl (AttributeError (type_name (priv_raw_path self)) ''endswith'')"
      using set_file_format_Inl[of "self\<lparr>range_attr := None, priv_file_format := None,
        priv_open_dataset := None\<rparr>"] that(2) by simp
    with that(1) show ?thesis by (simp add: EchoDataBase_init_def exn_bind_def Let_def)
  qed
  have c3: "?init = Inl e"
    if "assign_paths E raw_path Sv_path Sv_clean_path TS_path MVBS_path = Inl e"
    using that by (simp add: EchoDataBase_init_def exn_bind_def)
  have c4: "\<exists>e'. ?init = Inl e'"
    if "(\<forall>s. raw_path \<noteq> PStr s) \<or> (\<exists>s. raw_path = PStr s \<and> snd (splitext s) = [])"
  proof (cases ?init)
    case (Inl e')
    then show ?thesis by blast
  next
    case (Inr ed')
    from init_Inr[OF Inr] that show ?thesis by auto
  qed
  have c5: "EchoDataAZFP_init = EchoDataBase_init" "EchoDataEK60_init = EchoDataBase_init"
    "EchoDataEK80_init = EchoDataBase_init"
    by (simp_all add: EchoDataAZFP_init_def EchoDataEK60_init_def EchoDataEK80_init_def)
  from c1 c2 c3 c4 c5 show ?thesis by blast
qed

theorem init_requires_string_raw_path_witness:
  "EchoDataBase_init E_ok PNone PNone PNone PNone PNone = Inl (AttributeError ''NoneType'' ''endswith'')
   \<and> (\<exists>s. PStr ''x.nc'' = PStr s \<and> priv_raw_path ed_x = PStr s \<and>
          snd (splitext s) \<in> {''.nc'', ''.zarr''})"
proof -
  have h: "\<forall>s. priv_raw_path blank \<noteq> PStr s" by (simp add: blank_def)
  have t: "type_name (priv_raw_path blank) = ''NoneType''" by (simp add: blank_def type_name_def)
  show ?thesis
    using init_requires_string_raw_path[of E_ok PNone PNone PNone PNone PNone _ blank]
      init_requires_string_raw_path[of E_ok "PStr ''x.nc''" PNone PNone PNone PNone ed_x]
      assign_paths_none[of E_ok] init_x_nc h t
    by simp
qed

text \<open>
  With the default \<open>raw_path=None\<close> and a \<open>Sv_path\<close> that is neither a string nor a
  list, the resolved raw path is not a string and the exception is the \<open>ValueError\<close> of
  \<open>_update_file_list\<close>, raised before \<open>_set_file_format\<close> is reached.
\<close>

theorem init_requires_string_raw_path_counterexample:
  "EchoDataBase_init E_ok PNone POther PNone PNone PNone = Inl (ValueError ''Unsupported file path'')"
  by (simp add: EchoDataBase_init_def assign_paths_def update_data_pointer_def
      update_file_list_def exn_bind_def)

section \<open>The identical-required merge\<close>

lemma conflicts_self [simp]: "\<not> conflicts a a"
  by (simp add: conflicts_def list_ex_iff)

lemma union_alist_self [simp]: "union_alist a a = a"
proof -
  have "filter (\<lambda>kv. map_of a (fst kv) = None) a = []"
    by (auto simp: filter_empty_conv map_of_eq_None_iff)
  then show ?thesis by (simp add: union_alist_def)
qed

lemma merge2_self [simp]: "merge2 g g = Inr g"
  by (cases g) (simp add: merge2_def differ_def)

lemma merge_from_replicate: "merge_from g (replicate n g) = Inr g"
  by (induction n) (simp_all add: exn_bind_def)

lemma map_of_filter_key:
  "map_of (filter (\<lambda>kv. P (fst kv)) b) k = (if P k then map_of b k else None)"
  by (induction b) auto

lemma map_of_union_alist:
  "map_of (union_alist a b) k = (case map_of a k of Some v \<Rightarrow> Some v | None \<Rightarrow> map_of b k)"
  using map_of_filter_key[of "\<lambda>k. map_of a k = None" b k]
  by (simp add: union_alist_def map_add_def split: option.splits)

lemma no_conflict_agree:
  assumes "\<not> conflicts a b" and "map_of a k = Some v" and "map_of b k = Some v'"
  shows "v = v'"
proof -
  from assms(2) have "k \<in> set (map fst a)" by (force dest: map_of_SomeD)
  with assms(1) have "\<not> (map_of a k \<noteq> None \<and> map_of b k \<noteq> None \<and> map_of a k \<noteq> map_of b k)"
    by (auto simp: conflicts_def list_ex_iff)
  with assms(2,3) show ?thesis by simp
qed

lemma union_extends:
  assumes "\<not> conflicts a b"
  shows "(map_of a k = Some v \<longrightarrow> map_of (union_alist a b) k = Some v) \<and>
         (map_of b k = Some v \<longrightarrow> map_of (union_alist a b) k = Some v)"
proof (cases "map_of a k")
  case None
  then show ?thesis by (simp add: map_of_union_alist)
next
  case (Some v')
  then show ?thesis using no_conflict_agree[OF assms Some] by (auto simp: map_of_union_alist)
qed

lemma merge2_extends:
  assumes "merge2 a b = Inr r"
  shows "extends r a \<and> extends r b"
proof -
  from assms have nc: "\<not> conflicts (attrs a) (attrs b)" "\<not> conflicts (data_vars a) (data_vars b)"
    and r: "attrs r = union_alist (attrs a) (attrs b)"
      "data_vars r = union_alist (data_vars a) (data_vars b)"
    by (auto simp: merge2_def differ_def split: if_splits)
  show ?thesis
    unfolding extends_def r using union_extends[OF nc(1)] union_extends[OF nc(2)] by blast
qed

lemma extends_trans: "extends r a \<Longrightarrow> extends a b \<Longrightarrow> extends r b"
  by (simp add: extends_def)

lemma merge2_error: "merge2 a b = Inl e \<Longrightarrow> e = ConflictingMetadata"
  by (auto simp: merge2_def split: if_splits)

lemma merge_from_extends:
  "merge_from acc bs = Inr r \<Longrightarrow> extends r acc \<and> (\<forall>b \<in> set bs. extends r b)"
proof (induction bs arbitrary: acc)
  case Nil
  then show ?case by (simp add: extends_def)
next
  case (Cons b bs)
  from Cons.prems obtain acc' where a: "merge2 acc b = Inr acc'" "merge_from acc' bs = Inr r"
    by (auto simp: exn_bind_def split: sum.splits)
  from Cons.IH[OF a(2)] have ih: "extends r acc'" "\<forall>x \<in> set bs. extends r x" by auto
  from merge2_extends[OF a(1)] have "extends acc' acc" "extends acc' b" by auto
  with ih show ?case using extends_trans by auto
qed

lemma merge_from_error: "merge_from acc bs = Inl e \<Longrightarrow> e = ConflictingMetadata"
proof (induction bs arbitrary: acc)
  case Nil
  then show ?case by simp
next
  case (Cons b bs)
  show ?case
  proof (cases "merge2 acc b")
    case (Inl e')
    with Cons.prems merge2_error[OF Inl] show ?thesis by (simp add: exn_bind_def)
  next
    case (Inr acc')
    with Cons.prems have "merge_from acc' bs = Inl e" by (simp add: exn_bind_def)
    then show ?thesis by (rule Cons.IH)
  qed
qed

lemma extends_not_differ:
  assumes "extends r a" and "extends r b"
  shows "\<not> differ a b"
proof -
  have "\<not> conflicts x y" if "\<And>k v. map_of x k = Some v \<Longrightarrow> m k = Some v"
    "\<And>k v. map_of y k = Some v \<Longrightarrow> m k = Some v" for x y :: "(string \<times> 'v) list" and m
    using that by (fastforce simp: conflicts_def list_ex_iff)
  from this[of "attrs a" "map_of (attrs r)" "attrs b"]
    this[of "data_vars a" "map_of (data_vars r)" "data_vars b"] assms
  show ?thesis by (simp add: differ_def extends_def)
qed

lemma merge_identical_same: "merge_identical (replicate (Suc n) g) = Inr g"
  by (simp add: merge_identical_def merge_from_replicate)

lemma merge_identical_conflict:
  assumes "i < j" and "j < length gs" and "differ (gs ! i) (gs ! j)"
  shows "merge_identical gs = Inl ConflictingMetadata"
proof -
  from assms(2) obtain g rest where gs: "gs = g # rest" by (cases gs) auto
  show ?thesis
  proof (cases "merge_from g rest")
    case (Inl e)
    with merge_from_error[OF Inl] gs show ?thesis by (simp add: merge_identical_def)
  next
    case (Inr r)
    from merge_from_extends[OF Inr] gs have "\<forall>x \<in> set gs. extends r x" by simp
    moreover have "gs ! i \<in> set gs" "gs ! j \<in> set gs" using assms(1,2) by simp_all
    ultimately have "\<not> differ (gs ! i) (gs ! j)" using extends_not_differ by blast
    with assms(3) show ?thesis by simp
  qed
qed

text \<open>
  C4. For AZFP the Platform step opens the inputs with \<open>combine='nested'\<close> and
  \<open>compat='identical'\<close> and saves what it gets, unchanged, in mode \<open>a\<close>. With the
  merge of the specification behind that call: when the Platform groups of all the
  inputs are one and the same group, the step succeeds and saves that group; when two of
  the inputs have an attribute or a variable in common with different values, the step
  fails with ConflictingMetadata and saves nothing.
\<close>

theorem azfp_platform_merge:
  assumes "open_mfdataset E (PList input_paths)
             (no_kwargs\<lparr>kw_group := Some ''Platform'', kw_combine := Some ''nested'',
                kw_compat := Some ''identical'', kw_engine := Some engine\<rparr>) =
           open_identical (open_dataset E) input_paths ''Platform'' engine"
    and "open_all (open_dataset E) input_paths (Some ''Platform'') engine = Inr gs"
  shows "(gs = replicate (Suc n) g \<and>
          save_file E
            (tr @ [OpenMfDataset input_paths
               (no_kwargs\<lparr>kw_group := Some ''Platform'', kw_combine := Some ''nested'',
                  kw_compat := Some ''identical'', kw_engine := Some engine\<rparr>)])
            \<lparr>w_ds = g, w_path = output_path, w_mode = ''a'', w_engine = engine,
              w_group = Some ''Platform''\<rparr> = None \<longrightarrow>
          combine_platform E ''AZFP'' input_paths output_path engine tr =
            (tr @ [OpenMfDataset input_paths
               (no_kwargs\<lparr>kw_group := Some ''Platform'', kw_combine := Some ''nested'',
                  kw_compat := Some ''identical'', kw_engine := Some engine\<rparr>),
              Saved \<lparr>w_ds = g, w_path = output_path, w_mode = ''a'', w_engine = engine,
                w_group = Some ''Platform''\<rparr>], None))
       \<and> (i < j \<and> j < length gs \<and> differ (gs ! i) (gs ! j) \<longrightarrow>
          combine_platform E ''AZFP'' input_paths output_path engine tr =
            (tr, Some ConflictingMetadata))"
proof -
  have m: "open_mfdataset E (PList input_paths)
             (no_kwargs\<lparr>kw_group := Some ''Platform'', kw_combine := Some ''nested'',
                kw_compat := Some ''identical'', kw_engine := Some engine\<rparr>) = merge_identical gs"
    using assms by (simp add: open_identical_def exn_bind_def)
  have same: "combine_platform E ''AZFP'' input_paths output_path engine tr =
            (tr @ [OpenMfDataset input_paths
               (no_kwargs\<lparr>kw_group := Some ''Platform'', kw_combine := Some ''nested'',
                  kw_compat := Some ''identical'', kw_engine := Some engine\<rparr>),
              Saved \<lparr>w_ds = g, w_path = output_path, w_mode = ''a'', w_engine = engine,
                w_group = Some ''Platform''\<rparr>], None)"
    if "gs = replicate (Suc n) g"
      and "save_file E
            (tr @ [OpenMfDataset input_paths
               (no_kwargs\<lparr>kw_group := Some ''Platform'', kw_combine := Some ''nested'',
                  kw_compat := Some ''identical'', kw_engine := Some engine\<rparr>)])
            \<lparr>w_ds = g, w_path = output_path, w_mode = ''a'', w_engine = engine,
              w_group = Some ''Platform''\<rparr> = None"
    using m that merge_identical_same[of n g]
    by (simp add: combine_platform_def open_step_def save_step_def)
  have conflict: "combine_platform E ''AZFP'' input_paths output_path engine tr =
            (tr, Some ConflictingMetadata)"
    if "i < j" "j < length gs" "differ (gs ! i) (gs ! j)"
    using m merge_identical_conflict[OF that]
    by (simp add: combine_platform_def open_step_def)
  from same conflict show ?thesis by blast
qed

lemma E_azfp_lib:
  "open_mfdataset E_azfp (PList l)
     (no_kwargs\<lparr>kw_group := Some ''Platform'', kw_combine := Some ''nested'',
        kw_compat := Some ''identical'', kw_engine := Some ''netcdf4''\<rparr>) =
   open_identical (open_dataset E_azfp) l ''Platform'' ''netcdf4''"
  by (simp add: E_azfp_def)

lemma E_azfp_opened:
  "open_all (open_dataset E_azfp) [''a.nc'', ''a2.nc''] (Some ''Platform'') ''netcdf4'' =
     Inr (replicate (Suc 1) plat_a)"
  "open_all (open_dataset E_azfp) [''a.nc'', ''b.nc''] (Some ''Platform'') ''netcdf4'' =
     Inr [plat_a, plat_b]"
  by (simp_all add: E_azfp_def od_azfp_def exn_bind_def)

lemma differ_plat: "differ ([plat_a, plat_b] ! 0) ([plat_a, plat_b] ! 1)"
  by (simp add: differ_def conflicts_def plat_a_def plat_b_def)

theorem azfp_platform_merge_witness:
  "combine_platform E_azfp ''AZFP'' [''a.nc'', ''a2.nc''] ''out.nc'' ''netcdf4'' [] =
     ([OpenMfDataset [''a.nc'', ''a2.nc'']
         (no_kwargs\<lparr>kw_group := Some ''Platform'', kw_combine := Some ''nested'',
            kw_compat := Some ''identical'', kw_engine := Some ''netcdf4''\<rparr>),
       Saved \<lparr>w_ds = plat_a, w_path = ''out.nc'', w_mode = ''a'', w_engine = ''netcdf4'',
         w_group = Some ''Platform''\<rparr>], None)
   \<and> combine_platform E_azfp ''AZFP'' [''a.nc'', ''b.nc''] ''out.nc'' ''netcdf4'' [] =
     ([], Some ConflictingMetadata)"
proof -
  have sv: "save_file E_azfp tr w = None" for tr w by (simp add: E_azfp_def E_ok_def)
  show ?thesis
    using azfp_platform_merge[OF E_azfp_lib E_azfp_opened(1), of 1 plat_a "[]" "''out.nc''" 0 0]
      azfp_platform_merge[OF E_azfp_lib E_azfp_opened(2), of 0 plat_a "[]" "''out.nc''" 0 1]
      differ_plat sv
    by simp
qed

end
